theory Spec2Isabelle
  imports Complex_Main
begin

section \<open>Go runtime and standard-library functions used by the analyst\<close>

text \<open>
  Go strings are byte sequences: \<open>len\<close> counts bytes and \<open>s[i:j]\<close> slices bytes, so a
  Go string is a \<open>string\<close> (a list of 8-bit characters) here. A run-time panic of the
  source is a value of type \<open>panic\<close>, returned on the left of a sum.
\<close>

datatype panic =
    MakeSliceLenOutOfRange
  | IndexOutOfRange int
  | SliceBoundsOutOfRange int
  | NilPointerDereference

text \<open>Go's \<open>int\<close> is 64 bits wide: arithmetic wraps around in two's complement.\<close>

definition wrap64 :: "int \<Rightarrow> int" where
  "wrap64 x = (x + 9223372036854775808) mod 18446744073709551616 - 9223372036854775808"

text \<open>\<open>strings.HasPrefix\<close>, \<open>strings.Index\<close> (\<open>-1\<close> when absent), \<open>strings.Contains\<close>,
  \<open>strings.Join\<close>.\<close>

definition HasPrefix :: "string \<Rightarrow> string \<Rightarrow> bool" where
  "HasPrefix s p = (take (length p) s = p)"

fun Index :: "string \<Rightarrow> string \<Rightarrow> int" where
  "Index [] sub = (if sub = [] then 0 else - 1)"
| "Index (c # cs) sub =
     (if HasPrefix (c # cs) sub then 0
      else (let r = Index cs sub in if r < 0 then - 1 else r + 1))"

definition Contains :: "string \<Rightarrow> string \<Rightarrow> bool" where
  "Contains s sub = (0 \<le> Index s sub)"

fun Join :: "string list \<Rightarrow> string \<Rightarrow> string" where
  "Join [] sep = []"
| "Join [x] sep = x"
| "Join (x # y # ys) sep = x @ sep @ Join (y # ys) sep"

text \<open>
  White space as \<open>unicode.IsSpace\<close> sees it, on the UTF-8 bytes of a string: the six
  ASCII characters of \<open>asciiSpace\<close>, and the encodings of U+0085, U+00A0, U+1680,
  U+2000 to U+200A, U+2028, U+2029, U+202F, U+205F and U+3000. \<open>spaceWidth tbl s\<close> is the
  number of bytes of the white-space rune at the head of \<open>s\<close>, or 0 when there is none.
\<close>

definition asciiSpace :: "char \<Rightarrow> bool" where
  "asciiSpace c = (c \<in> set [CHR 0x09, CHR 0x0A, CHR 0x0B, CHR 0x0C, CHR 0x0D, CHR 0x20])"

definition unicodeSpaces :: "string list" where
  "unicodeSpaces =
     [[CHR 0xC2, CHR 0x85], [CHR 0xC2, CHR 0xA0], [CHR 0xE1, CHR 0x9A, CHR 0x80],
      [CHR 0xE2, CHR 0x80, CHR 0x80], [CHR 0xE2, CHR 0x80, CHR 0x81],
      [CHR 0xE2, CHR 0x80, CHR 0x82], [CHR 0xE2, CHR 0x80, CHR 0x83],
      [CHR 0xE2, CHR 0x80, CHR 0x84], [CHR 0xE2, CHR 0x80, CHR 0x85],
      [CHR 0xE2, CHR 0x80, CHR 0x86], [CHR 0xE2, CHR 0x80, CHR 0x87],
      [CHR 0xE2, CHR 0x80, CHR 0x88], [CHR 0xE2, CHR 0x80, CHR 0x89],
      [CHR 0xE2, CHR 0x80, CHR 0x8A], [CHR 0xE2, CHR 0x80, CHR 0xA8],
      [CHR 0xE2, CHR 0x80, CHR 0xA9], [CHR 0xE2, CHR 0x80, CHR 0xAF],
      [CHR 0xE2, CHR 0x81, CHR 0x9F], [CHR 0xE3, CHR 0x80, CHR 0x80]]"

definition spaceWidth :: "string list \<Rightarrow> string \<Rightarrow> nat" where
  "spaceWidth tbl s =
     (case s of
        [] \<Rightarrow> 0
      | c # cs \<Rightarrow>
          if asciiSpace c then 1
          else (case find (HasPrefix s) tbl of Some u \<Rightarrow> length u | None \<Rightarrow> 0))"

text \<open>
  \<open>strings.Fields\<close>: the maximal runs of non-space bytes. The first argument counts the
  bytes of a multi-byte white-space rune still to be skipped, the second is the field
  being read.
\<close>

fun fieldsScan :: "nat \<Rightarrow> string \<Rightarrow> string \<Rightarrow> string list" where
  "fieldsScan k cur [] = (if cur = [] then [] else [cur])"
| "fieldsScan (Suc k) cur (c # cs) = fieldsScan k cur cs"
| "fieldsScan 0 cur (c # cs) =
     (let w = spaceWidth unicodeSpaces (c # cs) in
      if 0 < w then (if cur = [] then [] else [cur]) @ fieldsScan (w - 1) [] cs
      else fieldsScan 0 (cur @ [c]) cs)"

definition Fields :: "string \<Rightarrow> string list" where
  "Fields s = fieldsScan 0 [] s"

text \<open>\<open>strings.TrimSpace\<close>: white-space runes are removed from both ends.\<close>

fun trimLeading :: "string list \<Rightarrow> nat \<Rightarrow> string \<Rightarrow> string" where
  "trimLeading tbl k [] = []"
| "trimLeading tbl (Suc k) (c # cs) = trimLeading tbl k cs"
| "trimLeading tbl 0 (c # cs) =
     (let w = spaceWidth tbl (c # cs) in
      if 0 < w then trimLeading tbl (w - 1) cs else c # cs)"

definition TrimSpace :: "string \<Rightarrow> string" where
  "TrimSpace s =
     rev (trimLeading (map rev unicodeSpaces) 0 (rev (trimLeading unicodeSpaces 0 s)))"

text \<open>
  \<open>time.Time\<close> is a count of nanoseconds since the Unix epoch and \<open>time.Duration\<close> a
  count of nanoseconds. \<open>Time.Sub\<close> saturates at the ends of the 64-bit range of a
  duration; \<open>time.Since now t\<close> is \<open>now.Sub(t)\<close>. \<open>Duration.Minutes\<close> is a \<open>float64\<close>
  in the source; its rounding is left out and the quotient is exact here.
\<close>

definition Unix :: "int \<Rightarrow> int \<Rightarrow> int" where
  "Unix sec nsec = sec * 1000000000 + nsec"

definition Minute :: int where
  "Minute = 60 * 1000000000"

definition Sub :: "int \<Rightarrow> int \<Rightarrow> int" where
  "Sub t u =
     (let d = t - u in
      if 9223372036854775807 < d then 9223372036854775807
      else if d < - 9223372036854775808 then - 9223372036854775808
      else d)"

definition Since :: "int \<Rightarrow> int \<Rightarrow> int" where
  "Since now t = Sub now t"

definition Minutes :: "int \<Rightarrow> rat" where
  "Minutes d = of_int d / 60000000000"

text \<open>
  The clock of one call: \<open>clk k\<close> is what the \<open>k\<close>-th call of \<open>time.Now()\<close> made
  during the call returns.
\<close>

type_synonym clock = "nat \<Rightarrow> int"

section \<open>The analysis record\<close>

text \<open>
  A value of Go's \<open>interface{}\<close> as it is read by the type assertions of the ingestion
  path: a string, a \<open>float64\<close> (a rational here), or anything else. A segment is a
  \<open>map[string]interface{}\<close>.
\<close>

datatype iface = StringVal string | Float64Val rat | OtherVal

type_synonym segment = "string \<rightharpoonup> iface"

definition asString :: "iface option \<Rightarrow> string option" where
  "asString v = (case v of Some (StringVal s) \<Rightarrow> Some s | _ \<Rightarrow> None)"

definition asFloat64 :: "iface option \<Rightarrow> rat option" where
  "asFloat64 v = (case v of Some (Float64Val f) \<Rightarrow> Some f | _ \<Rightarrow> None)"

text \<open>
  The conversion \<open>int64(ts)\<close> of a \<open>float64\<close> truncates towards zero. That is Go's result
  for a value within the range of \<open>int64\<close>; outside that range Go leaves the result to
  the implementation, and the truncated value stands for it here.
\<close>

definition int64 :: "rat \<Rightarrow> int" where
  "int64 f = (if 0 \<le> f then \<lfloor>f\<rfloor> else \<lceil>f\<rceil>)"

record TranscriptEntry =
  Timestamp :: int
  Speaker :: string
  Text :: string
  IsAgent :: bool

record ActionItem =
  ID :: string
  Description :: string
  Assignee :: string
  Priority :: string
  Type :: string
  Status :: string
  CreatedAt :: int

record TopicDiscussion =
  Topic :: string
  TopicStartTime :: string
  Duration :: rat
  TopicSummary :: string
  TopicParticipants :: "string list"

record GroundingChunk =
  URI :: string
  Title :: string

record GroundingSupport =
  StartIndex :: int
  EndIndex :: int
  SegmentText :: string
  GroundingChunkIndices :: "int list"

record GroundingMetadata =
  WebSearchQueries :: "string list"
  GroundingChunks :: "GroundingChunk list"
  GroundingSupports :: "GroundingSupport list"

record GroundedContent =
  GroundedText :: string
  TextWithCitations :: string
  ContentMetadata :: "GroundingMetadata option"

text \<open>
  The fields \<open>GroundedSummary\<close> and \<open>GroundedKeyPoints\<close> are pointers
  (\<open>*GroundedContent\<close>): an address into the store of the agent, or \<open>None\<close> for nil.
  The slices hold their elements by value.
\<close>

type_synonym addr = nat

record AnalysisData =
  MeetingID :: string
  MeetingURL :: string
  StartTime :: int
  LastUpdated :: int
  Transcript :: "TranscriptEntry list"
  Summary :: string
  GroundedSummary :: "addr option"
  KeyPoints :: "string list"
  GroundedKeyPoints :: "addr option"
  ActionItems :: "ActionItem list"
  Topics :: "TopicDiscussion list"
  Participants :: "string list"
  DurationMinutes :: rat
  WordCount :: int
  Sentiment :: string
  Keywords :: "string list"

text \<open>
  The agent. \<open>store\<close> holds the \<open>GroundedContent\<close> objects the record points to.
  \<open>currentAnalysisSnapshot\<close> is \<open>None\<close> for a nil slice. Two fields record what the
  agent does to the world: \<open>saved\<close> lists the records on which \<open>saveAnalysis\<close> has
  been called, oldest first, and \<open>spawned\<close> counts the goroutines started by
  \<open>go a.updateAnalysis()\<close>. The analysis file is written nowhere but in \<open>saveAnalysis\<close>,
  and there only when \<open>json.MarshalIndent\<close> succeeds; a failure of either step is
  logged and changes nothing else.
\<close>

record AnalystAgent =
  agentID :: string
  CustomPrompt :: "string option"
  data :: AnalysisData
  store :: "addr \<rightharpoonup> GroundedContent"
  lastAnalysis :: int
  currentAnalysisSnapshot :: "TranscriptEntry list option"
  saved :: "AnalysisData list"
  spawned :: nat

section \<open>Transcript ingestion\<close>

definition updateParticipants :: "string \<Rightarrow> AnalysisData \<Rightarrow> AnalysisData" where
  "updateParticipants speaker d =
     (if speaker \<in> set (Participants d) then d
      else d\<lparr>Participants := Participants d @ [speaker]\<rparr>)"

definition saveAnalysis :: "AnalystAgent \<Rightarrow> AnalystAgent" where
  "saveAnalysis a = a\<lparr>saved := saved a @ [data a]\<rparr>"

text \<open>
  The loop of \<open>ProcessUtterance\<close> over the segments: \<open>i\<close> is the index of the segment
  at the head, the triple is \<open>(fullText, speaker, timestamp)\<close>.
\<close>

fun scanSegments :: "nat \<Rightarrow> segment list \<Rightarrow> string \<times> string \<times> int \<Rightarrow> string \<times> string \<times> int" where
  "scanSegments i [] acc = acc"
| "scanSegments i (seg # segs) (fullText, speaker, timestamp) =
     (let speaker1 =
            (case asString (seg ''speaker'') of
               Some speakerVal \<Rightarrow> if speakerVal \<noteq> [] then speakerVal else speaker
             | None \<Rightarrow> speaker);
          fullText1 =
            (case asString (seg ''text'') of
               Some text \<Rightarrow>
                 if text \<noteq> [] then (if 0 < i then fullText @ '' '' else fullText) @ text
                 else fullText
             | None \<Rightarrow> fullText);
          timestamp1 =
            (case asFloat64 (seg ''timestamp'') of
               Some ts \<Rightarrow> Unix (int64 ts) 0
             | None \<Rightarrow> timestamp)
      in scanSegments (Suc i) segs (fullText1, speaker1, timestamp1))"

definition ProcessUtterance :: "clock \<Rightarrow> segment list \<Rightarrow> AnalystAgent \<Rightarrow> AnalystAgent" where
  "ProcessUtterance clk segments a =
     (if length segments = 0 then a
      else
        (case scanSegments 0 segments ([], ''Participant'', clk 0) of
           (transcriptText, speaker, timestamp) \<Rightarrow>
             if transcriptText = [] then a
             else
               (let entry = \<lparr>Timestamp = timestamp, Speaker = speaker,
                              Text = transcriptText, IsAgent = False\<rparr>;
                    d1 = (data a)\<lparr>Transcript := Transcript (data a) @ [entry]\<rparr>;
                    d2 = updateParticipants speaker d1;
                    d3 = d2\<lparr>LastUpdated := clk 1\<rparr>;
                    d4 = d3\<lparr>WordCount := WordCount d3 + int (length (Fields transcriptText))\<rparr>;
                    d5 = d4\<lparr>DurationMinutes := Minutes (Since (clk 2) (StartTime d4))\<rparr>;
                    a1 = saveAnalysis (a\<lparr>data := d5\<rparr>)
                in if 5 * Minute < Since (clk 3) (lastAnalysis a1)
                      \<or> length (Transcript (data a1)) mod 20 = 0
                   then a1\<lparr>spawned := spawned a1 + 1\<rparr>
                   else a1)))"

section \<open>Window selection\<close>

text \<open>
  The window computed by both branches of \<open>getRecentTranscript\<close>: with \<open>total\<close> the
  length of the slice, \<open>start = total - count\<close> (raised to 0 when negative) and
  \<open>actualCount = total - start\<close>; \<open>make\<close> panics on a negative length.
\<close>

definition recentOf :: "int \<Rightarrow> TranscriptEntry list \<Rightarrow> panic + TranscriptEntry list" where
  "recentOf count xs =
     (let total = int (length xs) in
      if total = 0 then Inr []
      else
        (let start0 = wrap64 (total - count);
             start = (if start0 < 0 then 0 else start0);
             actualCount = wrap64 (total - start)
         in if actualCount < 0 then Inl MakeSliceLenOutOfRange
            else Inr (drop (nat start) xs)))"

definition getRecentTranscript :: "AnalystAgent \<Rightarrow> int \<Rightarrow> panic + TranscriptEntry list" where
  "getRecentTranscript a count =
     (case currentAnalysisSnapshot a of
        Some snapshot \<Rightarrow> recentOf count snapshot
      | None \<Rightarrow> recentOf count (Transcript (data a)))"

text \<open>
  The first steps of \<open>updateAnalysis\<close>, up to the installation of the snapshot: the
  time of the cycle is recorded, the transcript is copied, and an empty transcript ends
  the cycle before a snapshot is installed.
\<close>

definition beginAnalysis :: "clock \<Rightarrow> AnalystAgent \<Rightarrow> AnalystAgent" where
  "beginAnalysis clk a =
     (let a1 = a\<lparr>lastAnalysis := clk 0\<rparr>;
          transcriptSnapshot = Transcript (data a1)
      in if length transcriptSnapshot = 0 then a1
         else a1\<lparr>currentAnalysisSnapshot := Some transcriptSnapshot\<rparr>)"

text \<open>A run of ingestion calls, each with its own clock.\<close>

fun ingestAll :: "(clock \<times> segment list) list \<Rightarrow> AnalystAgent \<Rightarrow> AnalystAgent" where
  "ingestAll [] a = a"
| "ingestAll ((clk, segments) # rest) a = ingestAll rest (ProcessUtterance clk segments a)"

text \<open>
  The windows that the five tasks of a cycle select, in the order of the cycle:
  \<open>generateSummary\<close> asks for 50 entries, \<open>extractKeyPoints\<close> for 30,
  \<open>identifyActionItems\<close> for 40, \<open>extractTopics\<close> for 50 and
  \<open>analyzeSentimentAndKeywords\<close> for 20.
\<close>

definition cycleWindows :: "AnalystAgent \<Rightarrow> (panic + TranscriptEntry list) list" where
  "cycleWindows a = map (getRecentTranscript a) [50, 30, 40, 50, 20]"

section \<open>Response parsing\<close>

definition extractJSONFromResponse :: "string \<Rightarrow> string" where
  "extractJSONFromResponse response =
     (let startMarker = ''```json'';
          endMarker = ''```'';
          startIdx = Index response startMarker
      in if startIdx = - 1 then []
         else
           (let startIdx1 = startIdx + int (length startMarker);
                endIdx = Index (drop (nat startIdx1) response) endMarker
            in if endIdx = - 1 then []
               else TrimSpace (take (nat endIdx) (drop (nat startIdx1) response))))"

section \<open>Citation merging\<close>

text \<open>The verb \<open>%d\<close> of \<open>fmt.Sprintf\<close>: an integer in decimal.\<close>

fun decimal :: "nat \<Rightarrow> string" where
  "decimal n =
     (if n < 10 then [''0123456789'' ! n]
      else decimal (n div 10) @ [''0123456789'' ! (n mod 10)])"

declare decimal.simps [simp del]

definition formatInt :: "int \<Rightarrow> string" where
  "formatInt n = (if n < 0 then ''-'' @ decimal (nat (- n)) else decimal (nat n))"

text \<open>
  The bubble sort of \<open>addCitations\<close>. \<open>innerLoop j n s\<close> runs the \<open>n\<close> remaining
  iterations of the inner loop from index \<open>j\<close>; \<open>outerLoop i n s\<close> runs the \<open>n\<close>
  remaining iterations of the outer loop from index \<open>i\<close>, the bound of its inner
  loop being \<open>len(supports)-1-i\<close>.
\<close>

fun innerLoop :: "nat \<Rightarrow> nat \<Rightarrow> GroundingSupport list \<Rightarrow> GroundingSupport list" where
  "innerLoop j 0 supports = supports"
| "innerLoop j (Suc n) supports =
     innerLoop (Suc j) n
       (if EndIndex (supports ! j) < EndIndex (supports ! Suc j)
        then supports[j := supports ! Suc j, Suc j := supports ! j]
        else supports)"

fun outerLoop :: "nat \<Rightarrow> nat \<Rightarrow> GroundingSupport list \<Rightarrow> GroundingSupport list" where
  "outerLoop i 0 supports = supports"
| "outerLoop i (Suc n) supports =
     outerLoop (Suc i) n (innerLoop 0 (length supports - 1 - i) supports)"

definition sortSupports :: "GroundingSupport list \<Rightarrow> GroundingSupport list" where
  "sortSupports supports = outerLoop 0 (length supports) supports"

text \<open>
  The loop over the chunk indices of one support. The source tests \<open>i < len(chunks)\<close>
  only, so a negative index reaches \<open>GroundingChunks[i]\<close>, which panics.
\<close>

fun citationLinks :: "GroundingChunk list \<Rightarrow> int list \<Rightarrow> string list \<Rightarrow> panic + string list" where
  "citationLinks chunks [] links = Inr links"
| "citationLinks chunks (i # rest) links =
     (if i < int (length chunks) then
        (if i < 0 then Inl (IndexOutOfRange i)
         else citationLinks chunks rest
                (links @ [''['' @ formatInt (i + 1) @ '']('' @ URI (chunks ! nat i) @ '')'']))
      else citationLinks chunks rest links)"

text \<open>
  The loop over the sorted supports. A negative \<open>endIndex\<close> passes the test
  \<open>endIndex <= len(result)\<close> and panics in \<open>result[:endIndex]\<close>.
\<close>

fun insertCitations :: "GroundingChunk list \<Rightarrow> GroundingSupport list \<Rightarrow> string \<Rightarrow> panic + string" where
  "insertCitations chunks [] result = Inr result"
| "insertCitations chunks (support # rest) result =
     (let endIndex = EndIndex support in
      if 0 < length (GroundingChunkIndices support) \<and> endIndex \<le> int (length result) then
        (case citationLinks chunks (GroundingChunkIndices support) [] of
           Inl p \<Rightarrow> Inl p
         | Inr links \<Rightarrow>
             if 0 < length links then
               (if endIndex < 0 then Inl (SliceBoundsOutOfRange endIndex)
                else
                  (let citationString = '' '' @ Join links '', '' in
                   insertCitations chunks rest
                     (take (nat endIndex) result @ citationString @ drop (nat endIndex) result)))
             else insertCitations chunks rest result)
      else insertCitations chunks rest result)"

definition addCitations :: "string \<Rightarrow> GroundingMetadata option \<Rightarrow> panic + string" where
  "addCitations text groundingMetadata =
     (case groundingMetadata of
        None \<Rightarrow> Inr text
      | Some md \<Rightarrow>
          if length (GroundingSupports md) = 0 then Inr text
          else insertCitations (GroundingChunks md) (sortSupports (GroundingSupports md)) text)"

text \<open>
  The citation marker of a support whose chunk indices are all in range, as the
  specification words it: a space, then the tokens \<open>[displayNumber](uri)\<close> joined with
  a comma and a space, the display number being the chunk index plus one.
\<close>

definition citationMarker :: "GroundingChunk list \<Rightarrow> int list \<Rightarrow> string" where
  "citationMarker chunks indices =
     '' '' @ Join (map (\<lambda>i. ''['' @ formatInt (i + 1) @ '']('' @ URI (chunks ! nat i) @ '')'') indices) '', ''"

text \<open>All the offsets at which \<open>sub\<close> occurs in \<open>s\<close>, in increasing order.\<close>

definition occurrences :: "string \<Rightarrow> string \<Rightarrow> nat list" where
  "occurrences s sub = filter (\<lambda>i. HasPrefix (drop i s) sub) [0..<Suc (length s)]"

section \<open>The query accessor\<close>

text \<open>
  \<open>GetAnalysis\<close> copies the struct and then gives each of the six slices a new backing
  array with the same elements; as values the slices are unchanged. The two pointer
  fields are copied as they are, so the copy points to the same \<open>GroundedContent\<close>
  objects as the record of the agent. (The \<open>Participants\<close> slices inside the topics
  keep their backing arrays too; lists are values here and that sharing is not modelled.)
\<close>

definition GetAnalysis :: "AnalystAgent \<Rightarrow> AnalysisData" where
  "GetAnalysis a =
     (let dataCopy = data a;
          dataCopy1 = dataCopy\<lparr>Transcript := Transcript (data a)\<rparr>;
          dataCopy2 = dataCopy1\<lparr>KeyPoints := KeyPoints (data a)\<rparr>;
          dataCopy3 = dataCopy2\<lparr>ActionItems := ActionItems (data a)\<rparr>;
          dataCopy4 = dataCopy3\<lparr>Topics := Topics (data a)\<rparr>;
          dataCopy5 = dataCopy4\<lparr>Participants := Participants (data a)\<rparr>;
          dataCopy6 = dataCopy5\<lparr>Keywords := Keywords (data a)\<rparr>
      in dataCopy6)"

text \<open>
  What a reader of a record sees behind its \<open>GroundedSummary\<close> pointer, and the
  assignment \<open>p.Text = t\<close> of a caller through a pointer \<open>p\<close> into the store.
\<close>

definition groundedSummaryOf :: "(addr \<rightharpoonup> GroundedContent) \<Rightarrow> AnalysisData \<Rightarrow> GroundedContent option" where
  "groundedSummaryOf st d = (case GroundedSummary d of None \<Rightarrow> None | Some p \<Rightarrow> st p)"

definition assignText :: "addr option \<Rightarrow> string \<Rightarrow> (addr \<rightharpoonup> GroundedContent) \<Rightarrow> panic + (addr \<rightharpoonup> GroundedContent)" where
  "assignText ptr t st =
     (case ptr of
        None \<Rightarrow> Inl NilPointerDereference
      | Some p \<Rightarrow>
          (case st p of
             None \<Rightarrow> Inl NilPointerDereference
           | Some gc \<Rightarrow> Inr (st(p \<mapsto> gc\<lparr>GroundedText := t\<rparr>))))"

section \<open>Prompt construction\<close>

text \<open>
  \<open>fmt.Sprintf\<close> with \<open>%s\<close> verbs and string arguments puts each argument in the place
  of its verb: the templates of the source are written as concatenations.
  \<open>strings.ToLower\<close> rests on the case tables of Unicode, which are not part of the
  repository: it is a parameter of \<open>isSafeInstruction\<close> and of the functions that call
  it. \<open>asciiToLower\<close> is what it computes on ASCII text.
\<close>

definition asciiToLower :: "string \<Rightarrow> string" where
  "asciiToLower s =
     map (\<lambda>c. case map_of (zip ''ABCDEFGHIJKLMNOPQRSTUVWXYZ'' ''abcdefghijklmnopqrstuvwxyz'') c of
                Some l \<Rightarrow> l
              | None \<Rightarrow> c) s"

definition harmfulPatterns :: "string list" where
  "harmfulPatterns =
     [''<script'', ''javascript:'', ''eval('', ''function('',
      ''import '', ''require('', ''exec('', ''system('',
      ''rm '', ''del '', ''format '', ''drop table'',
      ''alter table'', ''truncate table'']"

definition isSafeInstruction :: "(string \<Rightarrow> string) \<Rightarrow> string \<Rightarrow> bool" where
  "isSafeInstruction ToLower instructions =
     (if 5000 < length instructions then False
      else
        (let instructionsLower = ToLower instructions in
         \<not> list_ex (Contains instructionsLower) harmfulPatterns))"

definition getDefaultPrompt :: "string \<Rightarrow> string \<Rightarrow> string" where
  "getDefaultPrompt analysisType transcript =
     (if analysisType = ''summary'' then
          ''Analyze this meeting transcript and provide a comprehensive summary. You MUST use the google_search tool to validate and verify any factual claims, statistics, figures, technical details, company information, or specific statements that can be fact-checked.\<newline>''
          @ ''\<newline>''
          @ ''Focus on:\<newline>''
          @ ''- Main topics discussed\<newline>''
          @ ''- Key decisions made\<newline>''
          @ ''- Important information shared\<newline>''
          @ ''- Overall meeting progress and outcomes\<newline>''
          @ ''- Validation of any claims, facts, or figures mentioned\<newline>''
          @ ''\<newline>''
          @ ''IMPORTANT: For any factual statements, statistics, company data, technical specifications, or verifiable claims mentioned in the meeting:\<newline>''
          @ ''1. Use google_search to verify the accuracy\<newline>''
          @ ''2. Cross-reference multiple sources when possible\<newline>''
          @ ''3. Note if information cannot be verified or appears outdated\<newline>''
          @ ''4. Include relevant context from your search results\<newline>''
          @ ''\<newline>''
          @ ''Transcript:\<newline>''
          @ transcript
      else if analysisType = ''key_points'' then
          ''Extract the most important key points from this meeting transcript. Focus on:\<newline>''
          @ ''- Important decisions or agreements\<newline>''
          @ ''- Critical information shared\<newline>''
          @ ''- Action-oriented statements\<newline>''
          @ ''- Questions that need answers\<newline>''
          @ ''- Commitments made\<newline>''
          @ ''\<newline>''
          @ ''Transcript:\<newline>''
          @ transcript
      else if analysisType = ''action_items'' then
          ''Identify action items from this meeting transcript. Be VERY AGGRESSIVE in finding actionables - look beyond explicit tasks to identify research opportunities, follow-ups, and valuable investigations.\<newline>''
          @ ''\<newline>''
          @ ''Look for:\<newline>''
          @ ''- Explicit tasks that need to be completed\<newline>''
          @ ''- Follow-ups required from discussions\<newline>''
          @ ''- Decisions that need implementation\<newline>''
          @ ''- Assignments given to specific people\<newline>''
          @ ''- Deadlines mentioned\<newline>''
          @ ''- Research opportunities mentioned or implied\<newline>''
          @ ''- Unresolved questions that need investigation\<newline>''
          @ ''- Topics that participants showed interest in exploring further\<newline>''
          @ ''- Problems or challenges that need solutions\<newline>''
          @ ''- Ideas worth developing or validating\<newline>''
          @ ''- Market research, competitive analysis, or data gathering needs\<newline>''
          @ ''- Technical investigations or proof-of-concepts to build\<newline>''
          @ ''- Stakeholder consultations or expert opinions to seek\<newline>''
          @ ''- Tools, processes, or systems to evaluate\<newline>''
          @ ''- Industry trends or best practices to research\<newline>''
          @ ''\<newline>''
          @ ''For discussions about personalities, roles, or team dynamics:\<newline>''
          @ ''- Research specific methodologies, frameworks, or tools mentioned\<newline>''
          @ ''- Investigate industry best practices for team challenges discussed\<newline>''
          @ ''- Find case studies or examples relevant to situations discussed\<newline>''
          @ ''- Look up experts, books, or resources that could help\<newline>''
          @ ''\<newline>''
          @ ''EVEN IF NO EXPLICIT TASKS ARE MENTIONED, identify valuable research directions, learning opportunities, or investigative actions that would benefit the participants based on their discussions.\<newline>''
          @ ''\<newline>''
          @ ''For each action item, specify:\<newline>''
          @ ''- Description of what needs to be done\<newline>''
          @ ''- Who is responsible (if mentioned, otherwise suggest who might be best suited)\<newline>''
          @ ''- Priority level (high/medium/low) based on urgency and importance\<newline>''
          @ ''- Due date (if mentioned, otherwise suggest reasonable timeframe)\<newline>''
          @ ''- Type: task/research/investigation/follow-up/decision\<newline>''
          @ ''\<newline>''
          @ ''Transcript:\<newline>''
          @ transcript
      else if analysisType = ''topics'' then
          ''Analyze this meeting transcript and identify the main discussion topics. For each topic, provide:\<newline>''
          @ ''- Topic name/title\<newline>''
          @ ''- Brief summary of what was discussed\<newline>''
          @ ''- Key participants involved\<newline>''
          @ ''- Approximate start time and duration\<newline>''
          @ ''\<newline>''
          @ ''Transcript:\<newline>''
          @ transcript
      else if analysisType = ''sentiment_keywords'' then
          ''Analyze the sentiment and extract keywords from this meeting transcript.\<newline>''
          @ ''\<newline>''
          @ ''Determine the overall sentiment of the discussion and identify the most important keywords and phrases.\<newline>''
          @ ''\<newline>''
          @ ''Transcript:\<newline>''
          @ transcript
      else (''Analyze this meeting transcript and provide insights.\<newline>''
          @ ''\<newline>''
          @ ''Transcript:\<newline>''
          @ transcript))"

definition buildDirectPrompt :: "(string \<Rightarrow> string) \<Rightarrow> string \<Rightarrow> string \<Rightarrow> string \<Rightarrow> string" where
  "buildDirectPrompt ToLower analysisType clientInstructions transcript =
     (if \<not> isSafeInstruction ToLower clientInstructions then
        getDefaultPrompt analysisType transcript
      else
        (if analysisType = ''summary'' then
             ''Analyze this meeting transcript and provide a comprehensive summary.\<newline>''
             @ ''\<newline>''
             @ ''Additional Instructions: ''
             @ clientInstructions
             @ ''\<newline>''
             @ ''\<newline>''
             @ ''Transcript:\<newline>''
             @ transcript
         else if analysisType = ''key_points'' then
             ''Extract the most important key points from this meeting transcript.\<newline>''
             @ ''\<newline>''
             @ ''Additional Instructions: ''
             @ clientInstructions
             @ ''\<newline>''
             @ ''\<newline>''
             @ ''Transcript:\<newline>''
             @ transcript
         else if analysisType = ''action_items'' then
             ''Identify all actionable items from this meeting transcript.\<newline>''
             @ ''\<newline>''
             @ ''Additional Instructions: ''
             @ clientInstructions
             @ ''\<newline>''
             @ ''\<newline>''
             @ ''For each action item, specify:\<newline>''
             @ ''- Description of what needs to be done\<newline>''
             @ ''- Who is responsible (if mentioned)\<newline>''
             @ ''- Priority level (high/medium/low)\<newline>''
             @ ''- Due date (if mentioned)\<newline>''
             @ ''\<newline>''
             @ ''Transcript:\<newline>''
             @ transcript
         else if analysisType = ''topics'' then
             ''Analyze this meeting transcript and identify the main discussion topics.\<newline>''
             @ ''\<newline>''
             @ ''Additional Instructions: ''
             @ clientInstructions
             @ ''\<newline>''
             @ ''\<newline>''
             @ ''For each topic, provide:\<newline>''
             @ ''- Topic name/title\<newline>''
             @ ''- Brief summary of what was discussed\<newline>''
             @ ''- Key participants involved\<newline>''
             @ ''- Approximate start time and duration\<newline>''
             @ ''\<newline>''
             @ ''Transcript:\<newline>''
             @ transcript
         else if analysisType = ''sentiment_keywords'' then
             ''Analyze the sentiment and extract important keywords from this meeting transcript.\<newline>''
             @ ''\<newline>''
             @ ''Additional Instructions: ''
             @ clientInstructions
             @ ''\<newline>''
             @ ''\<newline>''
             @ ''Determine the overall sentiment and identify key themes and important terms.\<newline>''
             @ ''\<newline>''
             @ ''Transcript:\<newline>''
             @ transcript
         else getDefaultPrompt analysisType transcript))"

text \<open>
  The provider of the agent is its \<open>Call\<close> method, \<open>None\<close> standing for an error
  result; a nil provider is \<open>None\<close>, and a call through it panics.
\<close>

type_synonym provider = "string \<Rightarrow> string option"

definition generateTaskPromptFromCustomInstructions :: "provider option \<Rightarrow> string \<Rightarrow> string \<Rightarrow> panic + string option" where
  "generateTaskPromptFromCustomInstructions llmProvider analysisType customInstructions =
     (let taskDescription =
            (if analysisType = ''summary'' then ''creating comprehensive meeting summaries''
             else if analysisType = ''key_points'' then ''extracting key points and important takeaways''
             else if analysisType = ''action_items'' then ''identifying actionable items and next steps''
             else if analysisType = ''topics'' then ''analyzing discussion topics and themes''
             else if analysisType = ''sentiment_keywords'' then ''analyzing sentiment and extracting keywords''
             else ''analyzing meeting content'');
          prompt =
            (''Given this role description for an analyst agent:\<newline>''
            @ ''\<newline>''
            @ customInstructions
            @ ''\<newline>''
            @ ''\<newline>''
            @ ''Generate specific instructions for how this agent should approach ''
            @ taskDescription
            @ '' in meetings. Focus on their expertise, experience level, analytical style, and specific methodologies they should use. Provide clear, actionable guidance that captures their unique approach to this type of analysis.\<newline>''
            @ ''\<newline>''
            @ ''Keep the response focused and professional, as these instructions will be used directly in LLM prompts.'')
      in case llmProvider of
           None \<Rightarrow> Inl NilPointerDereference
         | Some call \<Rightarrow>
             (case call prompt of
                None \<Rightarrow> Inr None
              | Some response \<Rightarrow>
                  (let taskPrompt = TrimSpace response in
                   if taskPrompt = [] then Inr None else Inr (Some taskPrompt))))"

definition buildSecurePromptFromInstructions :: "(string \<Rightarrow> string) \<Rightarrow> provider option \<Rightarrow> string option \<Rightarrow> string \<Rightarrow> string \<Rightarrow> string \<Rightarrow> panic + string" where
  "buildSecurePromptFromInstructions ToLower llmProvider customPrompt analysisType customInstructions transcript =
     (case customPrompt of
        None \<Rightarrow> Inr (buildDirectPrompt ToLower analysisType customInstructions transcript)
      | Some cp \<Rightarrow>
          if cp = [] then Inr (buildDirectPrompt ToLower analysisType customInstructions transcript)
          else if \<not> isSafeInstruction ToLower cp then Inr (getDefaultPrompt analysisType transcript)
          else
            (case generateTaskPromptFromCustomInstructions llmProvider analysisType cp of
               Inl p \<Rightarrow> Inl p
             | Inr None \<Rightarrow> Inr (buildDirectPrompt ToLower analysisType customInstructions transcript)
             | Inr (Some taskPrompt) \<Rightarrow> Inr
                 (if analysisType = ''summary'' then
                      taskPrompt
                      @ ''\<newline>''
                      @ ''\<newline>''
                      @ ''Based on your expertise and role described above, analyze this meeting transcript and provide a comprehensive summary.\<newline>''
                      @ ''\<newline>''
                      @ ''Transcript:\<newline>''
                      @ transcript
                  else if analysisType = ''key_points'' then
                      taskPrompt
                      @ ''\<newline>''
                      @ ''\<newline>''
                      @ ''Based on your expertise and role described above, extract the most important key points from this meeting transcript.\<newline>''
                      @ ''\<newline>''
                      @ ''Transcript:\<newline>''
                      @ transcript
                  else if analysisType = ''action_items'' then
                      taskPrompt
                      @ ''\<newline>''
                      @ ''\<newline>''
                      @ ''Based on your expertise and role described above, identify all actionable items from this meeting transcript.\<newline>''
                      @ ''\<newline>''
                      @ ''For each action item, specify:\<newline>''
                      @ ''- Description of what needs to be done\<newline>''
                      @ ''- Who is responsible (if mentioned)\<newline>''
                      @ ''- Priority level (high/medium/low)\<newline>''
                      @ ''- Due date (if mentioned)\<newline>''
                      @ ''\<newline>''
                      @ ''Transcript:\<newline>''
                      @ transcript
                  else if analysisType = ''topics'' then
                      taskPrompt
                      @ ''\<newline>''
                      @ ''\<newline>''
                      @ ''Based on your expertise and role described above, analyze this meeting transcript and identify the main discussion topics.\<newline>''
                      @ ''\<newline>''
                      @ ''For each topic, provide:\<newline>''
                      @ ''- Topic name/title\<newline>''
                      @ ''- Brief summary of what was discussed\<newline>''
                      @ ''- Key participants involved\<newline>''
                      @ ''- Approximate start time and duration\<newline>''
                      @ ''\<newline>''
                      @ ''Transcript:\<newline>''
                      @ transcript
                  else if analysisType = ''sentiment_keywords'' then
                      taskPrompt
                      @ ''\<newline>''
                      @ ''\<newline>''
                      @ ''Based on your expertise and role described above, analyze the sentiment and extract important keywords from this meeting transcript.\<newline>''
                      @ ''\<newline>''
                      @ ''Determine the overall sentiment and identify key themes and important terms.\<newline>''
                      @ ''\<newline>''
                      @ ''Transcript:\<newline>''
                      @ transcript
                  else getDefaultPrompt analysisType transcript)))"

text \<open>
  \<open>defaultPrompt\<close> is the template of the caller with its slot for the transcript:
  \<open>defaultPrompt t\<close> stands for \<open>fmt.Sprintf(defaultPrompt, t)\<close>.
\<close>

definition buildAnalysisPrompt :: "(string \<Rightarrow> string) \<Rightarrow> provider option \<Rightarrow> AnalystAgent \<Rightarrow> string \<Rightarrow> (string \<Rightarrow> string) \<Rightarrow> string \<Rightarrow> panic + string" where
  "buildAnalysisPrompt ToLower llmProvider a analysisType defaultPrompt transcript =
     (case CustomPrompt a of
        None \<Rightarrow> Inr (defaultPrompt transcript)
      | Some cp \<Rightarrow>
          if cp \<noteq> [] then
            buildSecurePromptFromInstructions ToLower llmProvider (CustomPrompt a) analysisType cp transcript
          else Inr (defaultPrompt transcript))"


text \<open>
  The five tasks of a cycle. Each builds its prompt with \<open>buildAnalysisPrompt\<close> from its
  analysis type, its own default template and the formatted transcript. The template of a
  task is what the task sends when the agent has no custom instructions; it ends with the
  block that tells the model to answer in a fenced JSON block. \<open>f_defaultPrompt t\<close> is
  \<open>fmt.Sprintf\<close> of the template of the function \<open>f\<close> of the source with the transcript
  \<open>t\<close>, and \<open>f_prompt\<close> is the prompt that \<open>f\<close> builds.
\<close>

definition generateSummary_defaultPrompt :: "string \<Rightarrow> string" where
  \<open>generateSummary_defaultPrompt transcript =
       ''Analyze this meeting transcript and provide a comprehensive summary. You MUST use the google_search tool to validate and verify any factual claims, statistics, figures, technical details, company information, or specific statements that can be fact-checked.\<newline>''
       @ ''\<newline>''
       @ [CHR 0x09, CHR 0x09]
       @ ''Focus on:\<newline>''
       @ [CHR 0x09, CHR 0x09]
       @ ''- Main topics discussed\<newline>''
       @ [CHR 0x09, CHR 0x09]
       @ ''- Key decisions made  \<newline>''
       @ [CHR 0x09, CHR 0x09]
       @ ''- Important information shared\<newline>''
       @ [CHR 0x09, CHR 0x09]
       @ ''- Overall meeting progress and outcomes\<newline>''
       @ [CHR 0x09, CHR 0x09]
       @ ''- Validation of any claims, facts, or figures mentioned\<newline>''
       @ ''\<newline>''
       @ [CHR 0x09, CHR 0x09]
       @ ''IMPORTANT: For any factual statements, statistics, company data, technical specifications, or verifiable claims mentioned in the meeting:\<newline>''
       @ [CHR 0x09, CHR 0x09]
       @ ''1. Use google_search to verify the accuracy\<newline>''
       @ [CHR 0x09, CHR 0x09]
       @ ''2. Cross-reference multiple sources when possible\<newline>''
       @ [CHR 0x09, CHR 0x09]
       @ ''3. Note if information cannot be verified or appears outdated\<newline>''
       @ [CHR 0x09, CHR 0x09]
       @ ''4. Include relevant context from your search results\<newline>''
       @ ''\<newline>''
       @ [CHR 0x09, CHR 0x09]
       @ ''Transcript:\<newline>''
       @ [CHR 0x09, CHR 0x09]
       @ transcript
       @ ''\<newline>''
       @ ''\<newline>''
       @ [CHR 0x09, CHR 0x09]
       @ ''Provide your response in the following JSON format within a code block:\<newline>''
       @ [CHR 0x09, CHR 0x09]
       @ ''`json\<newline>''
       @ [CHR 0x09, CHR 0x09]
       @ ''{\<newline>''
       @ [CHR 0x09, CHR 0x09, CHR 0x09]
       @ ''"summary": "Your comprehensive summary here with validated facts and verified information",\<newline>''
       @ [CHR 0x09, CHR 0x09, CHR 0x09]
       @ ''"key_themes": ["theme1", "theme2", "theme3"]\<newline>''
       @ [CHR 0x09, CHR 0x09]
       @ ''}\<newline>''
       @ [CHR 0x09, CHR 0x09]
       @ ''`''\<close>

definition extractKeyPoints_defaultPrompt :: "string \<Rightarrow> string" where
  \<open>extractKeyPoints_defaultPrompt transcript =
       ''Extract the key points from this meeting transcript. Focus on:\<newline>''
       @ ''- Important decisions or agreements\<newline>''
       @ ''- Critical information shared\<newline>''
       @ ''- Action-oriented statements\<newline>''
       @ ''- Questions that need answers\<newline>''
       @ ''- Commitments made\<newline>''
       @ ''\<newline>''
       @ ''Provide the most important takeaways from the discussion.\<newline>''
       @ ''\<newline>''
       @ ''Transcript:\<newline>''
       @ transcript
       @ ''\<newline>''
       @ ''\<newline>''
       @ ''Provide your response in the following JSON format within a code block:\<newline>''
       @ ''`json\<newline>''
       @ ''{\<newline>''
       @ ''  "key_points": ["point1", "point2", "point3"]\<newline>''
       @ ''}\<newline>''
       @ ''`''\<close>

definition identifyActionItems_defaultPrompt :: "string \<Rightarrow> string" where
  \<open>identifyActionItems_defaultPrompt transcript =
       ''Identify action items from this meeting transcript. Be VERY AGGRESSIVE in finding actionables - look beyond explicit tasks to identify research opportunities, follow-ups, and valuable investigations.\<newline>''
       @ ''\<newline>''
       @ ''Look for:\<newline>''
       @ ''- Explicit tasks that need to be completed\<newline>''
       @ ''- Follow-ups required from discussions\<newline>''
       @ ''- Decisions that need implementation\<newline>''
       @ ''- Assignments given to specific people\<newline>''
       @ ''- Deadlines mentioned\<newline>''
       @ ''- Research opportunities mentioned or implied\<newline>''
       @ ''- Unresolved questions that need investigation\<newline>''
       @ ''- Topics that participants showed interest in exploring further\<newline>''
       @ ''- Problems or challenges that need solutions\<newline>''
       @ ''- Ideas worth developing or validating\<newline>''
       @ ''- Market research, competitive analysis, or data gathering needs\<newline>''
       @ ''- Technical investigations or proof-of-concepts to build\<newline>''
       @ ''- Stakeholder consultations or expert opinions to seek\<newline>''
       @ ''- Tools, processes, or systems to evaluate\<newline>''
       @ ''- Industry trends or best practices to research\<newline>''
       @ ''\<newline>''
       @ ''For discussions about personalities, roles, or team dynamics:\<newline>''
       @ ''- Research specific methodologies, frameworks, or tools mentioned\<newline>''
       @ ''- Investigate industry best practices for team challenges discussed\<newline>''
       @ ''- Find case studies or examples relevant to situations discussed\<newline>''
       @ ''- Look up experts, books, or resources that could help\<newline>''
       @ ''\<newline>''
       @ ''EVEN IF NO EXPLICIT TASKS ARE MENTIONED, identify valuable research directions, learning opportunities, or investigative actions that would benefit the participants based on their discussions.\<newline>''
       @ ''\<newline>''
       @ ''For each action item, identify:\<newline>''
       @ ''- Description of what needs to be done\<newline>''
       @ ''- Who is responsible (if mentioned, otherwise suggest who might be best suited)\<newline>''
       @ ''- Priority level (high/medium/low) based on urgency and importance\<newline>''
       @ ''- Due date (if mentioned, otherwise suggest reasonable timeframe)\<newline>''
       @ ''- Type: task/research/investigation/follow-up/decision\<newline>''
       @ ''\<newline>''
       @ ''Transcript:\<newline>''
       @ transcript
       @ ''\<newline>''
       @ ''\<newline>''
       @ ''Provide your response in the following JSON format within a code block:\<newline>''
       @ ''`json\<newline>''
       @ ''{\<newline>''
       @ ''  "action_items": [\<newline>''
       @ ''    {\<newline>''
       @ ''      "description": "Task description - be specific about what needs to be researched/done/investigated",\<newline>''
       @ ''      "assignee": "Person name (optional) or use ''
       @ [CHR 0x27]
       @ ''Reviewer''
       @ [CHR 0x27]
       @ ''",\<newline>''
       @ ''      "priority": "high (try to not use high until very necessary) / medium / low",\<newline>''
       @ ''      "type": "task/research/investigation/follow-up/decision"\<newline>''
       @ ''    }\<newline>''
       @ ''  ]\<newline>''
       @ ''}\<newline>''
       @ ''`''\<close>

definition extractTopics_defaultPrompt :: "string \<Rightarrow> string" where
  \<open>extractTopics_defaultPrompt transcript =
       ''Analyze this meeting transcript and identify the main discussion topics. For each topic, provide:\<newline>''
       @ ''- Topic name/title\<newline>''
       @ ''- Brief summary of what was discussed\<newline>''
       @ ''- Key participants involved\<newline>''
       @ ''- Approximate start time and duration\<newline>''
       @ ''\<newline>''
       @ ''Transcript:\<newline>''
       @ transcript
       @ ''\<newline>''
       @ ''\<newline>''
       @ ''Provide your response in the following JSON format within a code block:\<newline>''
       @ ''`json\<newline>''
       @ ''{\<newline>''
       @ ''  "topics": [\<newline>''
       @ ''    {\<newline>''
       @ ''      "topic": "Topic name",\<newline>''
       @ ''      "summary": "Brief summary of discussion",\<newline>''
       @ ''      "participants": ["Speaker1", "Speaker2"],\<newline>''
       @ ''      "start_time": "HH:MM",\<newline>''
       @ ''      "duration_minutes": 15\<newline>''
       @ ''    }\<newline>''
       @ ''  ]\<newline>''
       @ ''}\<newline>''
       @ ''`''\<close>

definition analyzeSentimentAndKeywords_defaultPrompt :: "string \<Rightarrow> string" where
  \<open>analyzeSentimentAndKeywords_defaultPrompt transcript =
       ''Analyze the sentiment and extract keywords from this meeting transcript.\<newline>''
       @ ''\<newline>''
       @ ''Determine the overall sentiment of the discussion and identify the most important keywords and phrases.\<newline>''
       @ ''\<newline>''
       @ ''Transcript:\<newline>''
       @ transcript
       @ ''\<newline>''
       @ ''\<newline>''
       @ ''Provide your response in the following JSON format within a code block:\<newline>''
       @ ''`json\<newline>''
       @ ''{\<newline>''
       @ ''  "sentiment": "positive/negative/neutral/mixed",\<newline>''
       @ ''  "keywords": ["keyword1", "keyword2", "keyword3"],\<newline>''
       @ ''  "confidence": 0.85\<newline>''
       @ ''}\<newline>''
       @ ''`''\<close>

definition generateSummary_prompt :: "(string \<Rightarrow> string) \<Rightarrow> provider option \<Rightarrow> AnalystAgent \<Rightarrow> string \<Rightarrow> panic + string" where
  "generateSummary_prompt ToLower llmProvider a transcript =
     buildAnalysisPrompt ToLower llmProvider a ''summary'' generateSummary_defaultPrompt transcript"

definition extractKeyPoints_prompt :: "(string \<Rightarrow> string) \<Rightarrow> provider option \<Rightarrow> AnalystAgent \<Rightarrow> string \<Rightarrow> panic + string" where
  "extractKeyPoints_prompt ToLower llmProvider a transcript =
     buildAnalysisPrompt ToLower llmProvider a ''key_points'' extractKeyPoints_defaultPrompt transcript"

definition identifyActionItems_prompt :: "(string \<Rightarrow> string) \<Rightarrow> provider option \<Rightarrow> AnalystAgent \<Rightarrow> string \<Rightarrow> panic + string" where
  "identifyActionItems_prompt ToLower llmProvider a transcript =
     buildAnalysisPrompt ToLower llmProvider a ''action_items'' identifyActionItems_defaultPrompt transcript"

definition extractTopics_prompt :: "(string \<Rightarrow> string) \<Rightarrow> provider option \<Rightarrow> AnalystAgent \<Rightarrow> string \<Rightarrow> panic + string" where
  "extractTopics_prompt ToLower llmProvider a transcript =
     buildAnalysisPrompt ToLower llmProvider a ''topics'' extractTopics_defaultPrompt transcript"

definition analyzeSentimentAndKeywords_prompt :: "(string \<Rightarrow> string) \<Rightarrow> provider option \<Rightarrow> AnalystAgent \<Rightarrow> string \<Rightarrow> panic + string" where
  "analyzeSentimentAndKeywords_prompt ToLower llmProvider a transcript =
     buildAnalysisPrompt ToLower llmProvider a ''sentiment_keywords'' analyzeSentimentAndKeywords_defaultPrompt transcript"

section \<open>Predicates and values used in the statements\<close>

text \<open>
  A segment supplies text when the test of the ingestion loop,
  \<open>text, ok := segment["text"].(string); ok && text != ""\<close>, succeeds on it.
\<close>

definition suppliesText :: "segment \<Rightarrow> bool" where
  "suppliesText seg = (case asString (seg ''text'') of Some text \<Rightarrow> text \<noteq> [] | None \<Rightarrow> False)"

text \<open>
  The agent built by \<open>NewAnalystAgent\<close> when no analysis file exists yet: the zero
  \<open>time.Time\<close> (1 January of year 1) is the time of the last analysis.
\<close>

definition zeroTime :: int where
  "zeroTime = Unix (- 62135596800) 0"

definition newAnalystAgent :: "clock \<Rightarrow> string \<Rightarrow> string \<Rightarrow> string option \<Rightarrow> AnalystAgent" where
  "newAnalystAgent clk agentId meetingURL customPrompt =
     \<lparr>agentID = agentId,
      CustomPrompt = customPrompt,
      data = \<lparr>MeetingID = agentId, MeetingURL = meetingURL,
               StartTime = clk 1, LastUpdated = clk 2,
               Transcript = [], Summary = [], GroundedSummary = None,
               KeyPoints = [], GroundedKeyPoints = None,
               ActionItems = [], Topics = [], Participants = [],
               DurationMinutes = 0, WordCount = 0, Sentiment = [], Keywords = []\<rparr>,
      store = Map.empty,
      lastAnalysis = zeroTime,
      currentAnalysisSnapshot = None,
      saved = [],
      spawned = 0\<rparr>"

definition exampleClock :: clock where
  "exampleClock k = 1700000000000000000 + int k"

definition exampleAgent :: AnalystAgent where
  "exampleAgent = newAnalystAgent exampleClock ''agent-1'' ''https://meet.example/abc'' None"

definition exampleEntry :: "string \<Rightarrow> string \<Rightarrow> TranscriptEntry" where
  "exampleEntry speaker text =
     \<lparr>Timestamp = 1700000000000000000, Speaker = speaker, Text = text, IsAgent = False\<rparr>"

text \<open>An agent in the middle of a cycle: three entries were in the transcript when the
  cycle took its snapshot.\<close>

definition midCycleAgent :: AnalystAgent where
  "midCycleAgent =
     beginAnalysis exampleClock
       (exampleAgent\<lparr>data := (data exampleAgent)\<lparr>Transcript :=
          [exampleEntry ''Ann'' ''one'', exampleEntry ''Bob'' ''two'', exampleEntry ''Ann'' ''three'']\<rparr>\<rparr>)"


text \<open>
  The entry of a batch as the specification words it: the texts that the fragments
  supply, joined with single spaces; the speaker and the timestamp of the last fragment
  that supplies one, or the placeholder and the current time.
\<close>

definition suppliedTexts :: "segment list \<Rightarrow> string list" where
  "suppliedTexts segments =
     concat (map (\<lambda>seg. case asString (seg ''text'') of
                          Some text \<Rightarrow> (if text \<noteq> [] then [text] else [])
                        | None \<Rightarrow> []) segments)"

definition suppliedSpeakers :: "segment list \<Rightarrow> string list" where
  "suppliedSpeakers segments =
     concat (map (\<lambda>seg. case asString (seg ''speaker'') of
                          Some speakerVal \<Rightarrow> (if speakerVal \<noteq> [] then [speakerVal] else [])
                        | None \<Rightarrow> []) segments)"

definition suppliedTimestamps :: "segment list \<Rightarrow> int list" where
  "suppliedTimestamps segments =
     concat (map (\<lambda>seg. case asFloat64 (seg ''timestamp'') of
                          Some ts \<Rightarrow> [Unix (int64 ts) 0]
                        | None \<Rightarrow> []) segments)"

definition specEntryText :: "segment list \<Rightarrow> string" where
  "specEntryText segments = Join (suppliedTexts segments) '' ''"

definition specSpeaker :: "segment list \<Rightarrow> string" where
  "specSpeaker segments =
     (if suppliedSpeakers segments = [] then ''Participant'' else last (suppliedSpeakers segments))"

definition specTimestamp :: "int \<Rightarrow> segment list \<Rightarrow> int" where
  "specTimestamp now segments =
     (if suppliedTimestamps segments = [] then now else last (suppliedTimestamps segments))"

text \<open>A batch whose first fragment names the speaker and carries no text.\<close>

definition leadingGapBatch :: "segment list" where
  "leadingGapBatch =
     [[''speaker'' \<mapsto> StringVal ''Ann'', ''timestamp'' \<mapsto> Float64Val 1700000100],
      [''text'' \<mapsto> StringVal ''hello'']]"

text \<open>Some occurrence of \<open>x\<close> in \<open>s\<close> starts before some occurrence of \<open>y\<close>.\<close>

definition appearsBefore :: "string \<Rightarrow> string \<Rightarrow> string \<Rightarrow> bool" where
  "appearsBefore x y s = list_ex (\<lambda>i. list_ex (\<lambda>j. i < j) (occurrences s y)) (occurrences s x)"

text \<open>A text of 23 bytes with two supports, at the end indices 10 and 20.\<close>

definition twoSupportText :: string where
  "twoSupportText = ''0123456789abcdefghijXYZ''"

definition twoSupportMetadata :: GroundingMetadata where
  "twoSupportMetadata =
     \<lparr>WebSearchQueries = [],
      GroundingChunks =
        [\<lparr>URI = ''u0'', Title = ''first''\<rparr>, \<lparr>URI = ''u1'', Title = ''second''\<rparr>],
      GroundingSupports =
        [\<lparr>StartIndex = 0, EndIndex = 10, SegmentText = ''0123456789'',
          GroundingChunkIndices = [0]\<rparr>,
         \<lparr>StartIndex = 10, EndIndex = 20, SegmentText = ''abcdefghij'',
          GroundingChunkIndices = [1]\<rparr>]\<rparr>"

text \<open>One support that refers to the chunk 0 and to the chunk index \<open>-1\<close>.\<close>

definition negativeIndexMetadata :: GroundingMetadata where
  "negativeIndexMetadata =
     \<lparr>WebSearchQueries = [],
      GroundingChunks = [\<lparr>URI = ''https://a.example'', Title = ''A''\<rparr>],
      GroundingSupports =
        [\<lparr>StartIndex = 0, EndIndex = 11, SegmentText = ''Go is fast.'',
          GroundingChunkIndices = [0, - 1]\<rparr>]\<rparr>"

text \<open>An agent whose custom prompt holds two patterns of the denylist.\<close>

definition unsafeAgent :: AnalystAgent where
  "unsafeAgent =
     newAnalystAgent exampleClock ''agent-2'' ''https://meet.example/abc''
       (Some ''Summarise, then EVAL(notes) and Drop Table users'')"

text \<open>An agent whose record points to a grounded summary at the address 0.\<close>

definition groundedAgent :: AnalystAgent where
  "groundedAgent =
     exampleAgent
       \<lparr>data := (data exampleAgent)\<lparr>Summary := ''Revenue grew.'', GroundedSummary := Some 0\<rparr>,
        store := [0 \<mapsto> \<lparr>GroundedText = ''Revenue grew.'',
                         TextWithCitations = ''Revenue grew. [1](https://a.example)'',
                         ContentMetadata = None\<rparr>]\<rparr>"

section \<open>Facts about the library functions\<close>

lemma wrap64_id:
  "- 9223372036854775808 \<le> x \<Longrightarrow> x < 9223372036854775808 \<Longrightarrow> wrap64 x = x"
  unfolding wrap64_def by (simp add: mod_pos_pos_trivial)

lemma Since_five_minutes: "5 * Minute < Since t u \<longleftrightarrow> 5 * Minute < t - u"
  by (simp add: Since_def Sub_def Minute_def Let_def)

lemma Join_Cons: "Join (x # xs) sep = x @ concat (map ((@) sep) xs)"
  by (induction xs arbitrary: x) auto

lemma Index_range: "Index s sub = - 1 \<or> (0 \<le> Index s sub \<and> Index s sub \<le> int (length s))"
  by (induction s) (auto simp: Let_def)

lemma Index_absent_no_occurrence:
  "Index s sub = - 1 \<Longrightarrow> s \<noteq> pre @ sub @ suf"
proof (induction s arbitrary: pre)
  case Nil
  then show ?case by (auto split: if_splits)
next
  case (Cons c cs)
  from Cons.prems have np: "\<not> HasPrefix (c # cs) sub" and r: "Index cs sub = - 1"
    using Index_range[of cs sub] by (auto simp: Let_def split: if_splits)
  show ?case
  proof (cases pre)
    case Nil
    with np show ?thesis by (auto simp: HasPrefix_def)
  next
    case (Cons p ps)
    with Cons.IH[OF r, of ps] show ?thesis by auto
  qed
qed

lemma Index_occurrence:
  "0 \<le> Index s sub \<Longrightarrow> \<exists>pre suf. s = pre @ sub @ suf \<and> int (length pre) = Index s sub"
proof (induction s)
  case Nil
  then show ?case by (auto split: if_splits)
next
  case (Cons c cs)
  show ?case
  proof (cases "HasPrefix (c # cs) sub")
    case True
    then have "c # cs = [] @ sub @ drop (length sub) (c # cs)"
      by (metis HasPrefix_def append_Nil append_take_drop_id)
    with True show ?thesis by (metis Index.simps(2) list.size(3) of_nat_0)
  next
    case False
    with Cons.prems have r: "0 \<le> Index cs sub" and e: "Index (c # cs) sub = Index cs sub + 1"
      by (auto simp: Let_def split: if_splits)
    from Cons.IH[OF r] obtain pre suf
      where "cs = pre @ sub @ suf" "int (length pre) = Index cs sub"
      by blast
    then have "c # cs = (c # pre) @ sub @ suf \<and> int (length (c # pre)) = Index (c # cs) sub"
      using e by simp
    then show ?thesis by blast
  qed
qed

lemma Index_absent_iff:
  "Index s sub = - 1 \<longleftrightarrow> \<not> (\<exists>pre suf. s = pre @ sub @ suf)"
  using Index_absent_no_occurrence Index_occurrence Index_range
  by (metis add.inverse_inverse neg_0_le_iff_le not_one_le_zero)

text \<open>
  A marker whose last byte occurs nowhere else in it cannot start inside the text before
  an occurrence and run into that occurrence.
\<close>

lemma no_overlap:
  assumes "q \<noteq> []" "length q < length m"
    and "\<forall>j<length m - 1. m ! j \<noteq> m ! (length m - 1)"
  shows "\<not> HasPrefix (q @ m @ rest) m"
proof
  assume "HasPrefix (q @ m @ rest) m"
  then have "take (length m) (q @ m @ rest) ! (length m - 1) = m ! (length m - 1)"
    by (simp add: HasPrefix_def)
  moreover have "take (length m) (q @ m @ rest) ! (length m - 1) = (q @ m @ rest) ! (length m - 1)"
    using assms(2) by (intro nth_take) simp
  moreover have "\<not> length m - 1 < length q"
    using assms(2) by linarith
  then have "(q @ m @ rest) ! (length m - 1) = (m @ rest) ! (length m - 1 - length q)"
    by (simp only: nth_append if_False)
  moreover have "length m - 1 - length q < length m"
    using assms(2) by linarith
  then have "(m @ rest) ! (length m - 1 - length q) = m ! (length m - 1 - length q)"
    by (simp only: nth_append if_True)
  moreover have "length m - 1 - length q < length m - 1"
    using assms(1,2) by (cases q) auto
  ultimately show False using assms(3) by metis
qed

lemma Index_after_prose:
  assumes "Index pre m = - 1" "m \<noteq> []"
    and "\<forall>j<length m - 1. m ! j \<noteq> m ! (length m - 1)"
  shows "Index (pre @ m @ rest) m = int (length pre)"
  using assms(1)
proof (induction pre)
  case Nil
  obtain c cs where "m = c # cs" using assms(2) by (cases m) auto
  then show ?case by (simp add: HasPrefix_def)
next
  case (Cons c p)
  from Cons.prems have np: "\<not> HasPrefix (c # p) m" and r: "Index p m = - 1"
    using Index_range[of p m] by (auto simp: Let_def split: if_splits)
  have "\<not> HasPrefix ((c # p) @ m @ rest) m"
  proof (cases "length (c # p) < length m")
    case True
    then show ?thesis using no_overlap[of "c # p" m rest] assms(3) by blast
  next
    case False
    then have "length m - length (c # p) = 0" by simp
    moreover have "take (length m) ((c # p) @ (m @ rest))
        = take (length m) (c # p) @ take (length m - length (c # p)) (m @ rest)"
      by (rule take_append)
    ultimately have "take (length m) ((c # p) @ m @ rest) = take (length m) (c # p)"
      by (simp only: take_0 append_Nil2)
    with np show ?thesis unfolding HasPrefix_def by metis
  qed
  with Cons.IH[OF r] show ?case by (simp add: Let_def)
qed

section \<open>Transcript ingestion: what a batch does to the agent\<close>

lemma scanSegments_no_text:
  "\<forall>seg\<in>set segs. \<not> suppliesText seg \<Longrightarrow> fst (scanSegments i segs (ft, sp, ts)) = ft"
  by (induction segs arbitrary: i ft sp ts)
     (auto simp: suppliesText_def Let_def split: option.splits)

lemma scanSegments_keeps_text:
  "ft \<noteq> [] \<Longrightarrow> fst (scanSegments i segs (ft, sp, ts)) \<noteq> []"
  by (induction segs arbitrary: i ft sp ts)
     (auto simp: Let_def split: option.splits)

lemma scanSegments_some_text:
  "\<exists>seg\<in>set segs. suppliesText seg \<Longrightarrow> fst (scanSegments i segs (ft, sp, ts)) \<noteq> []"
proof (induction segs arbitrary: i ft sp ts)
  case Nil
  then show ?case by simp
next
  case (Cons seg segs)
  show ?case
  proof (cases "suppliesText seg")
    case True
    then show ?thesis
      by (auto simp: suppliesText_def Let_def scanSegments_keeps_text split: option.splits)
  next
    case False
    with Cons.prems have "\<exists>s\<in>set segs. suppliesText s" by auto
    from Cons.IH[OF this] show ?thesis by (simp add: Let_def)
  qed
qed

lemma scanSegments_speaker:
  "fst (snd (scanSegments i segs (ft, sp, ts)))
     = (if suppliedSpeakers segs = [] then sp else last (suppliedSpeakers segs))"
  by (induction segs arbitrary: i ft sp ts)
     (auto simp: suppliedSpeakers_def Let_def split: option.splits)

lemma scanSegments_timestamp:
  "snd (snd (scanSegments i segs (ft, sp, ts)))
     = (if suppliedTimestamps segs = [] then ts else last (suppliedTimestamps segs))"
  by (induction segs arbitrary: i ft sp ts)
     (auto simp: suppliedTimestamps_def Let_def split: option.splits)

lemma scanSegments_text_later:
  "0 < i \<Longrightarrow> fst (scanSegments i segs (ft, sp, ts))
     = ft @ concat (map ((@) '' '') (suppliedTexts segs))"
  by (induction segs arbitrary: i ft sp ts)
     (auto simp: suppliedTexts_def Let_def split: option.splits)

lemma scanSegments_text:
  "fst (scanSegments 0 (seg # segs) ([], sp, ts))
     = (if suppliesText seg then specEntryText (seg # segs)
        else if suppliedTexts segs = [] then []
        else '' '' @ specEntryText (seg # segs))"
proof (cases "suppliesText seg")
  case True
  then obtain t where t: "asString (seg ''text'') = Some t" "t \<noteq> []"
    by (auto simp: suppliesText_def split: option.splits)
  then have "suppliedTexts (seg # segs) = t # suppliedTexts segs"
    by (simp add: suppliedTexts_def)
  with t True show ?thesis
    by (simp add: Let_def scanSegments_text_later specEntryText_def Join_Cons)
next
  case False
  then have s: "suppliedTexts (seg # segs) = suppliedTexts segs"
    by (auto simp: suppliesText_def suppliedTexts_def split: option.splits)
  from False have "fst (scanSegments 0 (seg # segs) ([], sp, ts))
      = concat (map ((@) '' '') (suppliedTexts segs))"
    by (auto simp: suppliesText_def Let_def scanSegments_text_later split: option.splits)
  with False s show ?thesis
    by (cases "suppliedTexts segs") (auto simp: specEntryText_def Join_Cons)
qed

text \<open>
  An accepted batch appends one entry, writes the record to the file and may start a
  cycle.
\<close>

lemma ProcessUtterance_accepted:
  assumes "\<exists>seg\<in>set segments. suppliesText seg"
  shows "\<exists>entry. \<not> IsAgent entry \<and> Text entry \<noteq> [] \<and>
           Transcript (data (ProcessUtterance clk segments a)) = Transcript (data a) @ [entry] \<and>
           saved (ProcessUtterance clk segments a) = saved a @ [data (ProcessUtterance clk segments a)] \<and>
           spawned (ProcessUtterance clk segments a) =
             (if 5 * Minute < clk 3 - lastAnalysis a
                 \<or> (length (Transcript (data a)) + 1) mod 20 = 0
              then spawned a + 1 else spawned a)"
proof -
  obtain t sp ts where s: "scanSegments 0 segments ([], ''Participant'', clk 0) = (t, sp, ts)"
    by (metis prod_cases3)
  with scanSegments_some_text[OF assms, of 0 "[]" "''Participant''" "clk 0"]
  have t: "t \<noteq> []" by simp
  from assms have ne: "segments \<noteq> []" by auto
  show ?thesis
    using s t ne
    by (simp add: ProcessUtterance_def Let_def saveAnalysis_def updateParticipants_def
          Since_five_minutes)
qed

text \<open>
  The entry of an accepted batch. Its speaker and its timestamp are those of the
  specification. Its text is the text of the specification when the first fragment
  supplies text, and that text after a space when it does not: the separator is written
  for every fragment of index above 0 that supplies text.
\<close>

lemma ProcessUtterance_entry:
  assumes "\<exists>seg\<in>set segments. suppliesText seg"
  shows "Transcript (data (ProcessUtterance clk segments a))
           = Transcript (data a) @
             [\<lparr>Timestamp = specTimestamp (clk 0) segments,
               Speaker = specSpeaker segments,
               Text = (if suppliesText (hd segments) then specEntryText segments
                       else '' '' @ specEntryText segments),
               IsAgent = False\<rparr>]"
proof -
  from assms obtain seg segs where ne: "segments = seg # segs" by (cases segments) auto
  let ?r = "scanSegments 0 segments ([], ''Participant'', clk 0)"
  have t: "fst ?r \<noteq> []"
    by (rule scanSegments_some_text[OF assms])
  have sp: "fst (snd ?r) = specSpeaker segments"
    by (simp add: scanSegments_speaker specSpeaker_def)
  have ts: "snd (snd ?r) = specTimestamp (clk 0) segments"
    by (simp add: scanSegments_timestamp specTimestamp_def)
  have tx: "fst ?r = (if suppliesText (hd segments) then specEntryText segments
                      else '' '' @ specEntryText segments)"
    using t scanSegments_text[of seg segs "''Participant''" "clk 0"] unfolding ne
    by (auto split: if_splits)
  obtain x y z where r: "?r = (x, y, z)" by (metis prod_cases3)
  with t sp ts tx ne show ?thesis
    by (simp add: ProcessUtterance_def Let_def saveAnalysis_def updateParticipants_def)
qed

text \<open>
  C3. For every batch whose text is not empty, the new entry has as its text the texts of
  the fragments joined with single spaces. The code breaks this on the batch
  \<open>leadingGapBatch\<close>, whose first fragment carries no text: the specification's text is
  \<open>hello\<close>, and the entry that \<open>ProcessUtterance\<close> appends has the text \<open> hello\<close>, with
  a space in front. The speaker and the timestamp of the entry are those of the
  specification.
\<close>

theorem ProcessUtterance_leading_space:
  "Transcript (data (ProcessUtterance exampleClock leadingGapBatch exampleAgent))
     = [\<lparr>Timestamp = 1700000100000000000, Speaker = ''Ann'', Text = '' hello'', IsAgent = False\<rparr>]
   \<and> specEntryText leadingGapBatch = ''hello''
   \<and> specSpeaker leadingGapBatch = ''Ann''
   \<and> specTimestamp (exampleClock 0) leadingGapBatch = 1700000100000000000"
  by (simp add: ProcessUtterance_def leadingGapBatch_def exampleAgent_def newAnalystAgent_def
       asString_def asFloat64_def Unix_def int64_def Let_def saveAnalysis_def updateParticipants_def
       specEntryText_def suppliedTexts_def specSpeaker_def suppliedSpeakers_def
       specTimestamp_def suppliedTimestamps_def)

text \<open>
  C4. A batch in which no fragment supplies text that is not empty leaves the agent as it
  was: the transcript, the word count, the participants, the duration, the time of the
  last update, the records written to the file (\<open>saved\<close>) and the number of cycles started
  (\<open>spawned\<close>) are all unchanged.
\<close>

theorem ProcessUtterance_empty_noop:
  assumes "\<forall>seg\<in>set segments. \<not> suppliesText seg"
  shows "ProcessUtterance clk segments a = a"
proof -
  obtain t sp ts where s: "scanSegments 0 segments ([], ''Participant'', clk 0) = (t, sp, ts)"
    by (metis prod_cases3)
  with scanSegments_no_text[OF assms, of 0 "[]" "''Participant''" "clk 0"] have "t = []" by simp
  with s show ?thesis by (simp add: ProcessUtterance_def)
qed

theorem ProcessUtterance_empty_noop_witness:
  "ProcessUtterance exampleClock
     [[''speaker'' \<mapsto> StringVal ''Ann''], [''text'' \<mapsto> StringVal []], [''text'' \<mapsto> OtherVal]]
     exampleAgent = exampleAgent"
proof -
  have "\<forall>seg\<in>set [[''speaker'' \<mapsto> StringVal ''Ann''], [''text'' \<mapsto> StringVal []],
                   [''text'' \<mapsto> OtherVal]]. \<not> suppliesText seg"
    by (simp add: suppliesText_def asString_def)
  from ProcessUtterance_empty_noop[OF this] show ?thesis .
qed

text \<open>
  C6. After an ingestion that appends an entry, a cycle is started if and only if more
  than five minutes have passed since the last cycle started, or the length of the
  transcript after the append is a multiple of 20; otherwise none is started.
\<close>

theorem cycle_trigger_condition:
  assumes "\<exists>seg\<in>set segments. suppliesText seg"
  shows "spawned (ProcessUtterance clk segments a)
           = (if 5 * Minute < clk 3 - lastAnalysis a
                 \<or> length (Transcript (data (ProcessUtterance clk segments a))) mod 20 = 0
              then spawned a + 1 else spawned a)"
  using ProcessUtterance_accepted[OF assms, of clk a] by auto

theorem cycle_trigger_condition_witness:
  "spawned (ProcessUtterance exampleClock [[''text'' \<mapsto> StringVal ''hi'']] exampleAgent) = 1
   \<and> spawned (ProcessUtterance exampleClock [[''text'' \<mapsto> StringVal ''hi'']]
                (exampleAgent\<lparr>lastAnalysis := exampleClock 0\<rparr>)) = 0"
proof -
  have h: "\<exists>seg\<in>set [[''text'' \<mapsto> StringVal ''hi'']]. suppliesText seg"
    by (simp add: suppliesText_def asString_def)
  have l: "\<And>a. lastAnalysis a = exampleClock 0 \<Longrightarrow> Transcript (data a) = [] \<Longrightarrow>
      length (Transcript (data (ProcessUtterance exampleClock [[''text'' \<mapsto> StringVal ''hi'']] a))) = 1"
    using ProcessUtterance_accepted[OF h, of exampleClock] by (metis append_Nil length_Cons list.size(3) One_nat_def)
  show ?thesis
    using cycle_trigger_condition[OF h, of exampleClock exampleAgent]
      cycle_trigger_condition[OF h, of exampleClock "exampleAgent\<lparr>lastAnalysis := exampleClock 0\<rparr>"]
      l[of "exampleAgent\<lparr>lastAnalysis := exampleClock 0\<rparr>"]
      ProcessUtterance_accepted[OF h, of exampleClock exampleAgent]
    by (auto simp: exampleAgent_def newAnalystAgent_def exampleClock_def zeroTime_def Unix_def Minute_def)
qed

text \<open>
  C10. The entry that an accepted batch appends to the transcript has its \<open>IsAgent\<close>
  flag equal to false.
\<close>

theorem ProcessUtterance_entry_not_agent:
  assumes "\<exists>seg\<in>set segments. suppliesText seg"
  shows "\<exists>entry. Transcript (data (ProcessUtterance clk segments a)) = Transcript (data a) @ [entry]
           \<and> IsAgent entry = False"
  using ProcessUtterance_accepted[OF assms, of clk a] by auto

theorem ProcessUtterance_entry_not_agent_witness:
  "\<exists>entry. Transcript (data (ProcessUtterance exampleClock
       [[''speaker'' \<mapsto> StringVal ''Bob'', ''text'' \<mapsto> StringVal ''we ship on Friday'']]
       exampleAgent))
      = Transcript (data exampleAgent) @ [entry]
    \<and> IsAgent entry = False"
proof -
  have h: "\<exists>seg\<in>set [[''speaker'' \<mapsto> StringVal ''Bob'',
                       ''text'' \<mapsto> StringVal ''we ship on Friday'']]. suppliesText seg"
    by (simp add: suppliesText_def asString_def)
  show ?thesis
    by (rule ProcessUtterance_entry_not_agent[OF h])
qed

section \<open>Window selection: the snapshot of a cycle\<close>

lemma recentOf_window:
  assumes "0 \<le> count" "count < 9223372036854775808" "int (length xs) < 9223372036854775808"
  shows "recentOf count xs = Inr (drop (length xs - min (nat count) (length xs)) xs)"
proof (cases "xs = []")
  case True
  then show ?thesis by (simp add: recentOf_def)
next
  case False
  let ?total = "int (length xs)"
  have w1: "wrap64 (?total - count) = ?total - count"
    using assms by (intro wrap64_id) auto
  show ?thesis
  proof (cases "?total - count < 0")
    case True
    have "wrap64 (?total - 0) = ?total" using assms by (simp add: wrap64_id)
    with True False w1 show ?thesis
      by (simp add: recentOf_def Let_def min_def)
  next
    case ge: False
    have "wrap64 (?total - (?total - count)) = count"
      using assms by (simp add: wrap64_id)
    moreover have "nat (?total - count) = length xs - min (nat count) (length xs)"
      using ge assms by (simp add: min_def) linarith
    ultimately show ?thesis using ge False w1 assms
      by (simp add: recentOf_def Let_def)
  qed
qed

lemma ProcessUtterance_snapshot:
  "currentAnalysisSnapshot (ProcessUtterance clk segments a) = currentAnalysisSnapshot a"
  by (simp add: ProcessUtterance_def saveAnalysis_def Let_def split: prod.splits)

lemma ingestAll_snapshot:
  "currentAnalysisSnapshot (ingestAll batches a) = currentAnalysisSnapshot a"
  by (induction batches arbitrary: a) (auto simp: ProcessUtterance_snapshot)

lemma beginAnalysis_snapshot:
  "Transcript (data a) \<noteq> [] \<Longrightarrow>
     currentAnalysisSnapshot (beginAnalysis clk a) = Some (Transcript (data a))"
  by (simp add: beginAnalysis_def Let_def)

text \<open>
  C1. While a snapshot is installed, the result of \<open>getRecentTranscript\<close> is the same
  whatever the record of the agent holds, and the same after any run of ingestion calls:
  the entries appended after the snapshot was taken are seen by none of the five tasks
  of the cycle. For a count that is not negative it is the last
  \<open>min count (length snapshot)\<close> entries of the snapshot. (The bounds \<open>2^63\<close> are those of
  Go's \<open>int\<close>.)
\<close>

theorem getRecentTranscript_snapshot_isolation:
  assumes "currentAnalysisSnapshot a = Some snapshot"
  shows "(0 \<le> count \<and> count < 9223372036854775808
            \<and> int (length snapshot) < 9223372036854775808 \<longrightarrow>
          getRecentTranscript a count
            = Inr (drop (length snapshot - min (nat count) (length snapshot)) snapshot))
       \<and> getRecentTranscript (a\<lparr>data := d\<rparr>) count = getRecentTranscript a count
       \<and> getRecentTranscript (ingestAll batches a) count = getRecentTranscript a count
       \<and> cycleWindows (ingestAll batches a) = cycleWindows a"
  using assms recentOf_window[of count snapshot]
  by (simp add: getRecentTranscript_def ingestAll_snapshot cycleWindows_def)

theorem getRecentTranscript_snapshot_isolation_witness:
  "getRecentTranscript midCycleAgent 2
     = Inr [exampleEntry ''Bob'' ''two'', exampleEntry ''Ann'' ''three'']
   \<and> getRecentTranscript
       (ingestAll [(exampleClock, [[''speaker'' \<mapsto> StringVal ''Cy'', ''text'' \<mapsto> StringVal ''four'']])]
          midCycleAgent) 2
     = getRecentTranscript midCycleAgent 2
   \<and> length (Transcript (data
       (ingestAll [(exampleClock, [[''speaker'' \<mapsto> StringVal ''Cy'', ''text'' \<mapsto> StringVal ''four'']])]
          midCycleAgent))) = 4"
proof -
  have s: "currentAnalysisSnapshot midCycleAgent
             = Some [exampleEntry ''Ann'' ''one'', exampleEntry ''Bob'' ''two'',
                     exampleEntry ''Ann'' ''three'']"
    by (simp add: midCycleAgent_def beginAnalysis_def Let_def)
  have l: "length (Transcript (data
       (ingestAll [(exampleClock, [[''speaker'' \<mapsto> StringVal ''Cy'', ''text'' \<mapsto> StringVal ''four'']])]
          midCycleAgent))) = 4"
    by (simp add: midCycleAgent_def beginAnalysis_def Let_def ProcessUtterance_def
          asString_def asFloat64_def saveAnalysis_def updateParticipants_def
          exampleAgent_def newAnalystAgent_def)
  show ?thesis
    using getRecentTranscript_snapshot_isolation[OF s, of 2 "data midCycleAgent"
        "[(exampleClock, [[''speaker'' \<mapsto> StringVal ''Cy'', ''text'' \<mapsto> StringVal ''four'']])]"] l
    by simp
qed

section \<open>Response parsing\<close>

lemma fence_unbordered:
  "\<forall>j<length ''```json'' - 1. ''```json'' ! j \<noteq> ''```json'' ! (length ''```json'' - 1)"
  by (auto simp: nth_Cons' split: if_splits)

lemma TrimSpace_example: \<open>TrimSpace '' {"a":1} '' = ''{"a":1}''\<close>
  by (simp add: TrimSpace_def spaceWidth_def asciiSpace_def unicodeSpaces_def HasPrefix_def)

lemma extract_no_fence:
  "\<not> (\<exists>pre suf. response = pre @ ''```json'' @ suf) \<Longrightarrow> extractJSONFromResponse response = []"
  using Index_absent_iff[of response "''```json''"]
  by (simp add: extractJSONFromResponse_def Let_def)

lemma extract_block:
  assumes "\<not> (\<exists>p s. pre = p @ ''```json'' @ s)"
  shows \<open>extractJSONFromResponse (pre @ ''```json {"a":1} ```'' @ suf) = ''{"a":1}''\<close>
proof -
  define R where \<open>R = '' {"a":1} ```'' @ suf\<close>
  define m where "m = ''```json''"
  from assms have a: "Index pre m = - 1" using Index_absent_iff m_def by blast
  have s: "Index (pre @ m @ R) m = int (length pre)"
    using Index_after_prose[OF a, of R] fence_unbordered by (simp add: m_def)
  have d: "drop (nat (int (length pre) + int (length m))) (pre @ m @ R) = R"
    by (simp add: nat_add_distrib)
  have e: \<open>Index R ''```'' = 9\<close>
    by (simp add: R_def HasPrefix_def)
  have t: \<open>take 9 R = '' {"a":1} ''\<close>
    by (simp add: R_def)
  have eq: \<open>pre @ ''```json {"a":1} ```'' @ suf = pre @ m @ R\<close>
    by (simp add: R_def m_def)
  have "extractJSONFromResponse (pre @ m @ R) = TrimSpace (take 9 R)"
    unfolding extractJSONFromResponse_def Let_def m_def[symmetric] s d using e by simp
  then show ?thesis
    unfolding eq using t TrimSpace_example by simp
qed

lemma prefix_has_no_fence: "\<not> (\<exists>p s. ''prefix '' = p @ ''```json'' @ s)"
proof -
  have "Index ''prefix '' ''```json'' = - 1" by (simp add: HasPrefix_def)
  then show ?thesis using Index_absent_iff by blast
qed

text \<open>
  C7. On a reply that holds no fence marker \<open>```json\<close>, \<open>extractJSONFromResponse\<close>
  returns the empty string. On the reply \<open>prefix ```json {"a":1} ``` suffix\<close> it returns
  exactly \<open>{"a":1}\<close>, and so it does whatever text stands before the block, provided that
  text holds no fence marker, and whatever text stands after it.
\<close>

theorem extractJSONFromResponse_contract:
  \<open>(\<not> (\<exists>pre suf. response = pre @ ''```json'' @ suf) \<longrightarrow> extractJSONFromResponse response = [])
   \<and> extractJSONFromResponse ''prefix ```json {"a":1} ``` suffix'' = ''{"a":1}''
   \<and> (\<not> (\<exists>p s. before = p @ ''```json'' @ s) \<longrightarrow>
        extractJSONFromResponse (before @ ''```json {"a":1} ```'' @ after) = ''{"a":1}'')\<close>
proof -
  have \<open>extractJSONFromResponse ''prefix ```json {"a":1} ``` suffix'' = ''{"a":1}''\<close>
    using extract_block[OF prefix_has_no_fence, of "'' suffix''"] by simp
  then show ?thesis
    using extract_no_fence[of response] extract_block[of before after] by blast
qed

theorem extractJSONFromResponse_contract_witness:
  \<open>extractJSONFromResponse ''The model gave no block.'' = []
   \<and> extractJSONFromResponse (''Here you are: '' @ ''```json {"a":1} ```'' @ '' Anything else?'')
       = ''{"a":1}''\<close>
proof -
  have "Index ''The model gave no block.'' ''```json'' = - 1" by (simp add: HasPrefix_def)
  then have n: "\<not> (\<exists>pre suf. ''The model gave no block.'' = pre @ ''```json'' @ suf)"
    using Index_absent_iff by blast
  have "Index ''Here you are: '' ''```json'' = - 1" by (simp add: HasPrefix_def)
  then have b: "\<not> (\<exists>p s. ''Here you are: '' = p @ ''```json'' @ s)"
    using Index_absent_iff by blast
  from extractJSONFromResponse_contract[of "''The model gave no block.''" "''Here you are: ''"
      "'' Anything else?''"] n b
  show ?thesis by blast
qed

section \<open>Citation merging\<close>

lemma citationLinks_in_range:
  assumes "\<forall>i\<in>set indices. 0 \<le> i \<and> i < int (length chunks)"
  shows "citationLinks chunks indices links
           = Inr (links @ map (\<lambda>i. ''['' @ formatInt (i + 1) @ '']('' @ URI (chunks ! nat i) @ '')'') indices)"
  using assms by (induction indices arbitrary: links) auto

text \<open>An index at or beyond the end of the chunk list is skipped, the others give their
  tokens.\<close>

lemma citationLinks_skips_beyond:
  assumes "\<forall>i\<in>set indices. 0 \<le> i"
  shows "citationLinks chunks indices links
           = Inr (links @ map (\<lambda>i. ''['' @ formatInt (i + 1) @ '']('' @ URI (chunks ! nat i) @ '')'')
                            (filter (\<lambda>i. i < int (length chunks)) indices))"
  using assms by (induction indices arbitrary: links) auto

lemma sortSupports_two:
  "EndIndex sa < EndIndex sb \<Longrightarrow> sortSupports [sa, sb] = [sb, sa]"
  "EndIndex sa < EndIndex sb \<Longrightarrow> sortSupports [sb, sa] = [sb, sa]"
  by (simp_all add: sortSupports_def)

lemma insert_one:
  assumes "indices \<noteq> []" "\<forall>i\<in>set indices. 0 \<le> i \<and> i < int (length chunks)"
    and "GroundingChunkIndices support = indices" "EndIndex support = int n" "n \<le> length result"
  shows "insertCitations chunks (support # rest) result
           = insertCitations chunks rest (take n result @ citationMarker chunks indices @ drop n result)"
  using assms citationLinks_in_range[OF assms(2), of "[]"]
  by (simp add: citationMarker_def Let_def)

lemma addCitations_no_metadata: "addCitations text None = Inr text"
  by (simp add: addCitations_def)

lemma addCitations_no_supports:
  "GroundingSupports md = [] \<Longrightarrow> addCitations text (Some md) = Inr text"
  by (simp add: addCitations_def)

lemma addCitations_endIndex_beyond:
  "GroundingSupports md = [support] \<Longrightarrow> int (length text) < EndIndex support \<Longrightarrow>
     addCitations text (Some md) = Inr text"
  by (simp add: addCitations_def sortSupports_def Let_def)

text \<open>
  C2 as the code has it. With a text of at least 20 bytes and two supports at the end
  indices 10 and 20, in either order, each with chunk indices that are all in range, the
  result holds both markers: the marker of the support at 10 stands at the offset 10, and
  the marker of the support at 20 stands after the bytes 10 to 19 of the text, behind
  the first marker. The support at 20 is handled first, so neither insertion moves the
  place of the other.
\<close>

theorem addCitations_two_supports:
  assumes "20 \<le> length text"
    and "EndIndex sa = 10" and "GroundingChunkIndices sa \<noteq> []"
    and "\<forall>i\<in>set (GroundingChunkIndices sa). 0 \<le> i \<and> i < int (length (GroundingChunks md))"
    and "EndIndex sb = 20" and "GroundingChunkIndices sb \<noteq> []"
    and "\<forall>i\<in>set (GroundingChunkIndices sb). 0 \<le> i \<and> i < int (length (GroundingChunks md))"
    and "GroundingSupports md = [sa, sb] \<or> GroundingSupports md = [sb, sa]"
  shows "addCitations text (Some md)
           = Inr (take 10 text
                  @ citationMarker (GroundingChunks md) (GroundingChunkIndices sa)
                  @ take 10 (drop 10 text)
                  @ citationMarker (GroundingChunks md) (GroundingChunkIndices sb)
                  @ drop 20 text)"
proof -
  let ?chunks = "GroundingChunks md"
  let ?ma = "citationMarker ?chunks (GroundingChunkIndices sa)"
  let ?mb = "citationMarker ?chunks (GroundingChunkIndices sb)"
  have lt: "EndIndex sa < EndIndex sb" using assms(2,5) by simp
  have sorted: "sortSupports (GroundingSupports md) = [sb, sa]"
    using assms(8) sortSupports_two[OF lt] by auto
  have ne: "length (GroundingSupports md) \<noteq> 0" using assms(8) by auto
  let ?r1 = "take 20 text @ ?mb @ drop 20 text"
  have s1: "insertCitations ?chunks [sb, sa] text = insertCitations ?chunks [sa] ?r1"
    using insert_one[OF assms(6,7) refl, of 20 "text" "[sa]"] assms(1,5) by simp
  have l1: "10 \<le> length ?r1" using assms(1) by simp
  have s2: "insertCitations ?chunks [sa] ?r1
              = insertCitations ?chunks [] (take 10 ?r1 @ ?ma @ drop 10 ?r1)"
    using insert_one[OF assms(3,4) refl, of 10 ?r1 "[]"] assms(2) l1 by simp
  have t: "take 10 ?r1 = take 10 text" using assms(1) by (simp add: min_def)
  have d: "drop 10 ?r1 = take 10 (drop 10 text) @ ?mb @ drop 20 text"
    using assms(1) by (simp add: drop_take)
  show ?thesis
    using sorted ne s1 s2 t d by (simp add: addCitations_def)
qed

theorem addCitations_two_supports_witness:
  "addCitations twoSupportText (Some twoSupportMetadata)
     = Inr ''0123456789 [1](u0)abcdefghij [2](u1)XYZ''"
proof -
  let ?sa = "\<lparr>StartIndex = 0, EndIndex = 10, SegmentText = ''0123456789'',
              GroundingChunkIndices = [0]\<rparr>"
  let ?sb = "\<lparr>StartIndex = 10, EndIndex = 20, SegmentText = ''abcdefghij'',
              GroundingChunkIndices = [1]\<rparr>"
  have "addCitations twoSupportText (Some twoSupportMetadata)
          = Inr (take 10 twoSupportText
                 @ citationMarker (GroundingChunks twoSupportMetadata) (GroundingChunkIndices ?sa)
                 @ take 10 (drop 10 twoSupportText)
                 @ citationMarker (GroundingChunks twoSupportMetadata) (GroundingChunkIndices ?sb)
                 @ drop 20 twoSupportText)"
    by (rule addCitations_two_supports)
       (simp_all add: twoSupportText_def twoSupportMetadata_def)
  then show ?thesis
    by (simp add: twoSupportText_def twoSupportMetadata_def citationMarker_def formatInt_def
          decimal.simps)
qed

text \<open>
  C2 as the specification states it fails: on \<open>twoSupportText\<close> the only occurrence of
  the marker of the support at 20 starts at the offset 28, behind the only occurrence of
  the marker of the support at 10, which starts at the offset 10. The marker for the
  index 20 does not appear before the marker for the index 10.
\<close>

theorem addCitations_marker_order_counterexample:
  "addCitations twoSupportText (Some twoSupportMetadata)
     = Inr ''0123456789 [1](u0)abcdefghij [2](u1)XYZ''
   \<and> occurrences ''0123456789 [1](u0)abcdefghij [2](u1)XYZ'' '' [2](u1)'' = [28]
   \<and> occurrences ''0123456789 [1](u0)abcdefghij [2](u1)XYZ'' '' [1](u0)'' = [10]
   \<and> \<not> appearsBefore '' [2](u1)'' '' [1](u0)'' ''0123456789 [1](u0)abcdefghij [2](u1)XYZ''"
proof -
  have a: "addCitations twoSupportText (Some twoSupportMetadata)
     = Inr ''0123456789 [1](u0)abcdefghij [2](u1)XYZ''"
    by (simp add: addCitations_def twoSupportText_def twoSupportMetadata_def sortSupports_def
          formatInt_def decimal.simps)
  have o2: "occurrences ''0123456789 [1](u0)abcdefghij [2](u1)XYZ'' '' [2](u1)'' = [28]"
    by (simp add: occurrences_def HasPrefix_def upt_rec)
  have o1: "occurrences ''0123456789 [1](u0)abcdefghij [2](u1)XYZ'' '' [1](u0)'' = [10]"
    by (simp add: occurrences_def HasPrefix_def upt_rec)
  have "\<not> appearsBefore '' [2](u1)'' '' [1](u0)'' ''0123456789 [1](u0)abcdefghij [2](u1)XYZ''"
    unfolding appearsBefore_def o1 o2 by simp
  with a o1 o2 show ?thesis by blast
qed

text \<open>
  C8. A chunk index that is out of the range of the chunk list is skipped, and none of
  these cases is an error. The code breaks this on a negative index: on
  \<open>negativeIndexMetadata\<close>, whose support refers to the chunks 0 and \<open>-1\<close>, the test
  \<open>i < len(chunks)\<close> lets \<open>-1\<close> through and \<open>GroundingChunks[-1]\<close> panics, where the
  claim gives the text with the token of the chunk 0. (With no metadata, with no support,
  with an end index beyond the text, and with indices at or beyond the end of the chunk
  list the code does what the claim says: see \<open>addCitations_no_metadata\<close>,
  \<open>addCitations_no_supports\<close>, \<open>addCitations_endIndex_beyond\<close> and
  \<open>citationLinks_skips_beyond\<close>.)
\<close>

theorem addCitations_negative_chunk_index_panics:
  "addCitations ''Go is fast.'' (Some negativeIndexMetadata) = Inl (IndexOutOfRange (- 1))"
  by (simp add: addCitations_def negativeIndexMetadata_def sortSupports_def formatInt_def
        decimal.simps)

section \<open>The query accessor\<close>

lemma GetAnalysis_equal: "GetAnalysis a = data a"
  by (simp add: GetAnalysis_def)

text \<open>
  C5. \<open>GetAnalysis\<close> returns a deep copy: no change made to the returned value changes
  the record of the agent. The code breaks this for the grounded summary (and in the
  same way for the grounded key points): the copy of \<open>groundedAgent\<close> is equal to its
  record, but its \<open>GroundedSummary\<close> is the same address 0, and after a caller has
  assigned the text \<open>tampered\<close> through that pointer, the grounded summary that the
  record of the agent points to has the text \<open>tampered\<close> too.
\<close>

theorem GetAnalysis_shares_grounded_content:
  "GetAnalysis groundedAgent = data groundedAgent
   \<and> GroundedSummary (GetAnalysis groundedAgent) = Some 0
   \<and> map_option GroundedText (groundedSummaryOf (store groundedAgent) (data groundedAgent))
       = Some ''Revenue grew.''
   \<and> (case assignText (GroundedSummary (GetAnalysis groundedAgent)) ''tampered'' (store groundedAgent) of
         Inl p \<Rightarrow> False
       | Inr st \<Rightarrow>
           map_option GroundedText (groundedSummaryOf st (data groundedAgent)) = Some ''tampered'')"
  by (simp add: GetAnalysis_def groundedAgent_def exampleAgent_def newAnalystAgent_def
        groundedSummaryOf_def assignText_def)

section \<open>Prompt construction\<close>

lemma unsafe_not_safe:
  assumes "5000 < length custom
           \<or> (\<exists>pattern\<in>set harmfulPatterns. Contains (ToLower custom) pattern)"
  shows "\<not> isSafeInstruction ToLower custom"
  using assms unfolding isSafeInstruction_def Let_def list_ex_iff by auto

text \<open>
  Instructions that are too long, or whose lower-case form contains a pattern of the
  denylist, are rejected without an error and without a call of the provider: the prompt
  is the one of \<open>getDefaultPrompt\<close>. \<open>buildDirectPrompt\<close> rejects them in the same way.
\<close>

lemma unsafe_instructions_fallback:
  assumes "CustomPrompt a = Some custom" and "custom \<noteq> []"
    and "5000 < length custom
         \<or> (\<exists>pattern\<in>set harmfulPatterns. Contains (ToLower custom) pattern)"
  shows "buildAnalysisPrompt ToLower llmProvider a analysisType defaultPrompt transcript
           = Inr (getDefaultPrompt analysisType transcript)
       \<and> buildDirectPrompt ToLower analysisType custom transcript
           = getDefaultPrompt analysisType transcript"
  using assms(1,2) unsafe_not_safe[of custom ToLower, OF assms(3)]
  by (simp add: buildAnalysisPrompt_def buildSecurePromptFromInstructions_def buildDirectPrompt_def)

lemma no_custom_prompt_default:
  "CustomPrompt a = None \<Longrightarrow>
     buildAnalysisPrompt ToLower llmProvider a analysisType defaultPrompt transcript
       = Inr (defaultPrompt transcript)"
  by (simp add: buildAnalysisPrompt_def)

text \<open>
  For none of the five tasks is the prompt of \<open>getDefaultPrompt\<close> the default prompt of
  the task, whatever the transcript: the response-format block is missing from each, and
  the instructions differ for three of them.
\<close>

lemma generateSummary_fallback_differs:
  "getDefaultPrompt ''summary'' t \<noteq> generateSummary_defaultPrompt t"
  by (simp add: getDefaultPrompt_def generateSummary_defaultPrompt_def)

lemma extractKeyPoints_fallback_differs:
  "getDefaultPrompt ''key_points'' t \<noteq> extractKeyPoints_defaultPrompt t"
  by (simp add: getDefaultPrompt_def extractKeyPoints_defaultPrompt_def)

lemma identifyActionItems_fallback_differs:
  "getDefaultPrompt ''action_items'' t \<noteq> identifyActionItems_defaultPrompt t"
  by (simp add: getDefaultPrompt_def identifyActionItems_defaultPrompt_def)

lemma extractTopics_fallback_differs:
  "getDefaultPrompt ''topics'' t \<noteq> extractTopics_defaultPrompt t"
  by (simp add: getDefaultPrompt_def extractTopics_defaultPrompt_def)

lemma analyzeSentimentAndKeywords_fallback_differs:
  "getDefaultPrompt ''sentiment_keywords'' t \<noteq> analyzeSentimentAndKeywords_defaultPrompt t"
  by (simp add: getDefaultPrompt_def analyzeSentimentAndKeywords_defaultPrompt_def)

lemma unsafeAgent_rejected:
  "buildAnalysisPrompt asciiToLower None unsafeAgent analysisType defaultPrompt transcript
     = Inr (getDefaultPrompt analysisType transcript)"
proof -
  have c: "CustomPrompt unsafeAgent = Some ''Summarise, then EVAL(notes) and Drop Table users''"
    by (simp add: unsafeAgent_def newAnalystAgent_def)
  have p: "''eval('' \<in> set harmfulPatterns" by (simp add: harmfulPatterns_def)
  have "asciiToLower ''Summarise, then EVAL(notes) and Drop Table users''
          = ''summarise, then eval(notes) and drop table users''"
    by (simp add: asciiToLower_def)
  moreover have "Contains ''summarise, then eval(notes) and drop table users'' ''eval(''"
    by (simp add: Contains_def HasPrefix_def)
  ultimately have "Contains (asciiToLower ''Summarise, then EVAL(notes) and Drop Table users'') ''eval(''"
    by simp
  with p have h: "5000 < length ''Summarise, then EVAL(notes) and Drop Table users''
      \<or> (\<exists>pattern\<in>set harmfulPatterns.
            Contains (asciiToLower ''Summarise, then EVAL(notes) and Drop Table users'') pattern)"
    by blast
  from unsafe_instructions_fallback[of unsafeAgent
      "''Summarise, then EVAL(notes) and Drop Table users''" asciiToLower, OF c _ h]
  show ?thesis by simp
qed

text \<open>
  C9. When the custom instructions are rejected, the prompt built for a task is the
  default prompt of that task. The code breaks this. The custom instructions of
  \<open>unsafeAgent\<close> hold \<open>EVAL(\<close> and \<open>Drop Table\<close> and are rejected without an error; the
  prompt of the sentiment task is then the text of \<open>getDefaultPrompt\<close>, which ends with
  the transcript, while the default prompt of that task, the one the same agent sends
  with no custom instructions, goes on to ask for a fenced JSON block. For each of the
  five tasks the prompt after the rejection is not the prompt of the agent without
  custom instructions.
\<close>

theorem unsafe_instructions_not_task_default:
  \<open>analyzeSentimentAndKeywords_prompt asciiToLower None unsafeAgent ''[10:00:00] Ann: hi\<newline>''
     = Inr ''Analyze the sentiment and extract keywords from this meeting transcript.\<newline>\<newline>Determine the overall sentiment of the discussion and identify the most important keywords and phrases.\<newline>\<newline>Transcript:\<newline>[10:00:00] Ann: hi\<newline>''
   \<and> analyzeSentimentAndKeywords_prompt asciiToLower None (unsafeAgent\<lparr>CustomPrompt := None\<rparr>)
       ''[10:00:00] Ann: hi\<newline>''
     = Inr ''Analyze the sentiment and extract keywords from this meeting transcript.\<newline>\<newline>Determine the overall sentiment of the discussion and identify the most important keywords and phrases.\<newline>\<newline>Transcript:\<newline>[10:00:00] Ann: hi\<newline>\<newline>\<newline>Provide your response in the following JSON format within a code block:\<newline>`json\<newline>{\<newline>  "sentiment": "positive/negative/neutral/mixed",\<newline>  "keywords": ["keyword1", "keyword2", "keyword3"],\<newline>  "confidence": 0.85\<newline>}\<newline>`''
   \<and> generateSummary_prompt asciiToLower None unsafeAgent ''[10:00:00] Ann: hi\<newline>''
       \<noteq> generateSummary_prompt asciiToLower None (unsafeAgent\<lparr>CustomPrompt := None\<rparr>)
           ''[10:00:00] Ann: hi\<newline>''
   \<and> extractKeyPoints_prompt asciiToLower None unsafeAgent ''[10:00:00] Ann: hi\<newline>''
       \<noteq> extractKeyPoints_prompt asciiToLower None (unsafeAgent\<lparr>CustomPrompt := None\<rparr>)
           ''[10:00:00] Ann: hi\<newline>''
   \<and> identifyActionItems_prompt asciiToLower None unsafeAgent ''[10:00:00] Ann: hi\<newline>''
       \<noteq> identifyActionItems_prompt asciiToLower None (unsafeAgent\<lparr>CustomPrompt := None\<rparr>)
           ''[10:00:00] Ann: hi\<newline>''
   \<and> extractTopics_prompt asciiToLower None unsafeAgent ''[10:00:00] Ann: hi\<newline>''
       \<noteq> extractTopics_prompt asciiToLower None (unsafeAgent\<lparr>CustomPrompt := None\<rparr>)
           ''[10:00:00] Ann: hi\<newline>''
   \<and> analyzeSentimentAndKeywords_prompt asciiToLower None unsafeAgent ''[10:00:00] Ann: hi\<newline>''
       \<noteq> analyzeSentimentAndKeywords_prompt asciiToLower None
           (unsafeAgent\<lparr>CustomPrompt := None\<rparr>) ''[10:00:00] Ann: hi\<newline>''\<close>
proof -
  have n: "\<And>analysisType defaultPrompt transcript.
      buildAnalysisPrompt asciiToLower None (unsafeAgent\<lparr>CustomPrompt := None\<rparr>)
        analysisType defaultPrompt transcript = Inr (defaultPrompt transcript)"
    by (rule no_custom_prompt_default) simp
  have f: \<open>getDefaultPrompt ''sentiment_keywords'' ''[10:00:00] Ann: hi\<newline>''
      = ''Analyze the sentiment and extract keywords from this meeting transcript.\<newline>\<newline>Determine the overall sentiment of the discussion and identify the most important keywords and phrases.\<newline>\<newline>Transcript:\<newline>[10:00:00] Ann: hi\<newline>''\<close>
    by (simp add: getDefaultPrompt_def)
  have d: \<open>analyzeSentimentAndKeywords_defaultPrompt ''[10:00:00] Ann: hi\<newline>''
      = ''Analyze the sentiment and extract keywords from this meeting transcript.\<newline>\<newline>Determine the overall sentiment of the discussion and identify the most important keywords and phrases.\<newline>\<newline>Transcript:\<newline>[10:00:00] Ann: hi\<newline>\<newline>\<newline>Provide your response in the following JSON format within a code block:\<newline>`json\<newline>{\<newline>  "sentiment": "positive/negative/neutral/mixed",\<newline>  "keywords": ["keyword1", "keyword2", "keyword3"],\<newline>  "confidence": 0.85\<newline>}\<newline>`''\<close>
    by (simp add: analyzeSentimentAndKeywords_defaultPrompt_def)
  show ?thesis
    unfolding generateSummary_prompt_def extractKeyPoints_prompt_def
      identifyActionItems_prompt_def extractTopics_prompt_def
      analyzeSentimentAndKeywords_prompt_def unsafeAgent_rejected n
    using f d generateSummary_fallback_differs extractKeyPoints_fallback_differs
      identifyActionItems_fallback_differs extractTopics_fallback_differs
      analyzeSentimentAndKeywords_fallback_differs
    by simp
qed

end
